theory Spec2Isabelle
  imports Main "HOL-Library.Word"
begin

section \<open>Values of the JavaScript runtime\<close>

text \<open>
  A \<^verbatim>\<open>Uint8Array\<close> element is an 8-bit word, a JavaScript string is a list of UTF-16 code
  units. An \<^verbatim>\<open>ArrayBuffer\<close> and a \<^verbatim>\<open>Blob\<close> are byte lists. A \<^verbatim>\<open>Uint8Array\<close> is a view
  on a buffer: the code reads both the view and its \<^verbatim>\<open>.buffer\<close>.
\<close>

type_synonym byte = "8 word"
type_synonym bytes = "byte list"
type_synonym jsstring = "16 word list"

definition js :: "string \<Rightarrow> jsstring" where
  "js s = map of_char s"

record uint8array =
  buffer :: bytes
  byteOffset :: nat
  byteLength :: nat

definition new_Uint8Array :: "bytes \<Rightarrow> uint8array" where
  "new_Uint8Array bs = \<lparr>buffer = bs, byteOffset = 0, byteLength = length bs\<rparr>"

definition u8_bytes :: "uint8array \<Rightarrow> bytes" where
  "u8_bytes a = take (byteLength a) (drop (byteOffset a) (buffer a))"


record js_file =
  file_name :: jsstring
  file_bytes :: bytes

text \<open>\<^verbatim>\<open>Blob.slice(start, end)\<close> and \<^verbatim>\<open>ArrayBuffer.slice(start, end)\<close> clamp to the size.\<close>

definition slice :: "bytes \<Rightarrow> nat \<Rightarrow> nat \<Rightarrow> bytes" where
  "slice bs start end' = take (end' - start) (drop start bs)"

definition slice_from :: "bytes \<Rightarrow> nat \<Rightarrow> bytes" where
  "slice_from bs start = drop start bs"

text \<open>Reading a typed array past its end gives \<^verbatim>\<open>undefined\<close>.\<close>

definition at :: "'a list \<Rightarrow> nat \<Rightarrow> 'a option" where
  "at xs i = (if i < length xs then Some (xs ! i) else None)"

text \<open>
  What \<^verbatim>\<open>JSON.parse\<close> returns. A number is an IEEE double, kept as its 64 bits; the
  model never inspects it. A property read gives a value or \<^verbatim>\<open>undefined\<close> (\<open>None\<close>).
\<close>

type_synonym js_number = "64 word"

datatype json =
  JNull
  | JBool bool
  | JNumber js_number
  | JString jsstring
  | JArray "json list"
  | JObject "(jsstring \<times> json) list"

type_synonym jsvalue = "json option"

text \<open>
  Everything the code can throw. \<open>Error m\<close> is \<^verbatim>\<open>new Error(m)\<close>, the only error the
  repository constructs; the others are raised by the platform.
\<close>

datatype js_error =
  Error string
  | RangeError
  | TypeError
  | SyntaxError
  | InvalidCharacterError
  | InvalidAccessError
  | OperationError
  | DataError
  | QuotaExceededError

section \<open>Keys, the console and the random source\<close>

datatype key_algorithm = AES_GCM | PBKDF2 | HKDF

datatype key_usage = Encrypt | Decrypt | WrapKey | UnwrapKey | DeriveKey

datatype hash_algorithm = SHA_256

record cryptokey =
  key_raw :: bytes
  algorithm :: key_algorithm
  extractable :: bool
  usages :: "key_usage list"

datatype log_level = INFO | WARN | ERROR

text \<open>A template literal is the list of its parts.\<close>

datatype piece = Lit string | Num nat | Str jsstring | Err js_error

text \<open>
  The observable events of a run: the lines \<^verbatim>\<open>securityLog\<close> prints (without their time
  stamp) and the calls of \<^verbatim>\<open>crypto.subtle.encrypt\<close> and \<^verbatim>\<open>crypto.subtle.decrypt\<close> with
  their key, IV and data.
\<close>

datatype event =
  Console log_level "piece list"
  | Subtle_encrypt cryptokey bytes bytes
  | Subtle_decrypt cryptokey bytes bytes

record world =
  rng :: "nat \<Rightarrow> byte"
  rng_pos :: nat
  trace :: "event list"

type_synonym 'a io = "world \<Rightarrow> (js_error + 'a) \<times> world"

definition io_return :: "'a \<Rightarrow> 'a io" where
  "io_return x = (\<lambda>w. (Inr x, w))"

definition io_throw :: "js_error \<Rightarrow> 'a io" where
  "io_throw e = (\<lambda>w. (Inl e, w))"

definition io_bind :: "'a io \<Rightarrow> ('a \<Rightarrow> 'b io) \<Rightarrow> 'b io" where
  "io_bind m f = (\<lambda>w. case m w of (Inl e, w') \<Rightarrow> (Inl e, w') | (Inr x, w') \<Rightarrow> f x w')"

definition io_then :: "unit io \<Rightarrow> 'b io \<Rightarrow> 'b io" where
  "io_then m k = io_bind m (\<lambda>_. k)"

definition io_catch :: "'a io \<Rightarrow> (js_error \<Rightarrow> 'a io) \<Rightarrow> 'a io" where
  "io_catch m h = (\<lambda>w. case m w of (Inl e, w') \<Rightarrow> h e w' | (Inr x, w') \<Rightarrow> (Inr x, w'))"

definition io_of :: "js_error + 'a \<Rightarrow> 'a io" where
  "io_of r = (\<lambda>w. (r, w))"

definition emit :: "event \<Rightarrow> unit io" where
  "emit e = (\<lambda>w. (Inr (), w\<lparr>trace := trace w @ [e]\<rparr>))"

text \<open>
  \<^verbatim>\<open>crypto.getRandomValues(new Uint8Array(n))\<close>: a fresh array holding the next \<open>n\<close>
  bytes of the random source; more than 65536 bytes are refused.
\<close>

definition getRandomValues :: "nat \<Rightarrow> uint8array io" where
  "getRandomValues n = (\<lambda>w.
     if 65536 < n then (Inl QuotaExceededError, w)
     else (Inr (new_Uint8Array (map (rng w) [rng_pos w ..< rng_pos w + n])),
           w\<lparr>rng_pos := rng_pos w + n\<rparr>))"

section \<open>The platform\<close>

text \<open>
  The functions of the browser that the repository calls and does not define: the text
  codecs, base64, JSON, and the primitives behind \<^verbatim>\<open>crypto.subtle\<close>. They are
  parameters of the model.
\<close>

record metadata =
  md_fileName :: jsstring
  md_sp :: jsstring
  md_se :: jsstring
  md_wiv :: jsstring
  md_wdek :: jsstring

record platform =
  TextEncoder_encode :: "jsstring \<Rightarrow> bytes"
  TextDecoder_decode :: "bytes \<Rightarrow> jsstring"
  btoa :: "jsstring \<Rightarrow> js_error + jsstring"
  atob :: "jsstring \<Rightarrow> js_error + jsstring"
  JSON_stringify :: "metadata \<Rightarrow> jsstring"
  JSON_parse :: "jsstring \<Rightarrow> json option"
  Number_toString :: "js_number \<Rightarrow> jsstring"
  pbkdf2 :: "hash_algorithm \<Rightarrow> bytes \<Rightarrow> bytes \<Rightarrow> nat \<Rightarrow> nat \<Rightarrow> bytes"
  hkdf :: "hash_algorithm \<Rightarrow> bytes \<Rightarrow> bytes \<Rightarrow> bytes \<Rightarrow> nat \<Rightarrow> bytes"
  aes_gcm_encrypt :: "bytes \<Rightarrow> bytes \<Rightarrow> bytes \<Rightarrow> bytes"
  aes_gcm_decrypt :: "bytes \<Rightarrow> bytes \<Rightarrow> bytes \<Rightarrow> bytes option"

subsection \<open>Property reads and string conversion\<close>

text \<open>
  \<^verbatim>\<open>metadata.sp\<close>: reading a property of \<^verbatim>\<open>null\<close> throws a \<^verbatim>\<open>TypeError\<close>; an object
  gives its member or \<^verbatim>\<open>undefined\<close>; numbers, booleans, strings and arrays have none of
  the five property names the code reads.
\<close>

fun get_property :: "json \<Rightarrow> jsstring \<Rightarrow> js_error + jsvalue" where
  "get_property JNull k = Inl TypeError"
| "get_property (JObject ms) k = Inr (map_of ms k)"
| "get_property v k = Inr None"

text \<open>
  \<^verbatim>\<open>atob\<close> converts its argument to a string first. An array joins the strings of its
  elements (nothing for \<^verbatim>\<open>null\<close>). An object gives \<^verbatim>\<open>[object Object]\<close> through
  \<^verbatim>\<open>Object.prototype.toString\<close>, unless it has a member \<^verbatim>\<open>toString\<close> of its own: no value
  parsed from JSON can be called, so the conversion throws a \<^verbatim>\<open>TypeError\<close>.
\<close>

fun join_comma :: "jsstring list \<Rightarrow> jsstring" where
  "join_comma [] = []"
| "join_comma [s] = s"
| "join_comma (s # t # ss) = s @ js '','' @ join_comma (t # ss)"

primrec first_error :: "(js_error + 'a) list \<Rightarrow> js_error + 'a list" where
  "first_error [] = Inr []"
| "first_error (r # rs) =
     (case r of
        Inl e \<Rightarrow> Inl e
      | Inr x \<Rightarrow> (case first_error rs of Inl e \<Rightarrow> Inl e | Inr xs \<Rightarrow> Inr (x # xs)))"

fun ToString :: "platform \<Rightarrow> json \<Rightarrow> js_error + jsstring" where
  "ToString P JNull = Inr (js ''null'')"
| "ToString P (JBool b) = Inr (if b then js ''true'' else js ''false'')"
| "ToString P (JNumber n) = Inr (Number_toString P n)"
| "ToString P (JString s) = Inr s"
| "ToString P (JArray vs) =
     (case first_error (map (\<lambda>v. if v = JNull then Inr [] else ToString P v) vs) of
        Inl e \<Rightarrow> Inl e
      | Inr ss \<Rightarrow> Inr (join_comma ss))"
| "ToString P (JObject ms) =
     (if map_of ms (js ''toString'') \<noteq> None then Inl TypeError
      else Inr (js ''[object Object]''))"

definition ToString_value :: "platform \<Rightarrow> jsvalue \<Rightarrow> js_error + jsstring" where
  "ToString_value P v = (case v of None \<Rightarrow> Inr (js ''undefined'') | Some j \<Rightarrow> ToString P j)"

subsection \<open>DataView and typed-array writes\<close>

text \<open>
  \<^verbatim>\<open>view.setUint32(offset, n, true)\<close> stores \<open>n mod 2^32\<close> in little-endian order,
  \<^verbatim>\<open>view.getUint32(offset, true)\<close> reads it back; both throw a \<^verbatim>\<open>RangeError\<close> when the
  four bytes do not lie inside the buffer. \<^verbatim>\<open>target.set(source, offset)\<close> throws when
  the source does not fit.
\<close>

definition uint32_le :: "nat \<Rightarrow> bytes" where
  "uint32_le n =
     (let v = n mod 2 ^ 32
      in [of_nat v, of_nat (v div 256), of_nat (v div 65536), of_nat (v div 16777216)])"

definition array_set :: "bytes \<Rightarrow> bytes \<Rightarrow> nat \<Rightarrow> js_error + bytes" where
  "array_set target source offset =
     (if length target < offset + length source then Inl RangeError
      else Inr (take offset target @ source @ drop (offset + length source) target))"

definition setUint32 :: "bytes \<Rightarrow> nat \<Rightarrow> nat \<Rightarrow> js_error + bytes" where
  "setUint32 buf offset n = array_set buf (uint32_le n) offset"

definition getUint32 :: "bytes \<Rightarrow> nat \<Rightarrow> js_error + nat" where
  "getUint32 buf offset =
     (if length buf < offset + 4 then Inl RangeError
      else Inr (unat (buf ! offset) + 256 * unat (buf ! (offset + 1))
                + 65536 * unat (buf ! (offset + 2)) + 16777216 * unat (buf ! (offset + 3))))"

section \<open>utils/security.ts\<close>

definition PBKDF2_iterations :: nat where "PBKDF2_iterations = 600000"
definition PBKDF2_hash :: hash_algorithm where "PBKDF2_hash = SHA_256"
definition PBKDF2_keyLen :: nat where "PBKDF2_keyLen = 32"
definition AES_KEY_LENGTH :: nat where "AES_KEY_LENGTH = 256"
definition AES_IV_LENGTH :: nat where "AES_IV_LENGTH = 12"
definition AES_TAG_LENGTH :: nat where "AES_TAG_LENGTH = 16"
definition SALT_LENGTH :: nat where "SALT_LENGTH = 16"

definition generateSalt :: "nat \<Rightarrow> uint8array io" where
  "generateSalt length' = getRandomValues length'"

definition securityLog :: "piece list \<Rightarrow> log_level \<Rightarrow> unit io" where
  "securityLog message level = emit (Console level message)"

section \<open>modules/Metadata.ts\<close>

definition MAGIC_HEADER :: bytes where
  "MAGIC_HEADER = [0x44, 0x59, 0x41, 0x44]"

text \<open>The two loops copy bytes to character codes and back (a store truncates to 8 bits).\<close>

primrec fromCharCodes :: "bytes \<Rightarrow> jsstring" where
  "fromCharCodes [] = []"
| "fromCharCodes (b # bs) = ucast b # fromCharCodes bs"

primrec charCodes :: "jsstring \<Rightarrow> bytes" where
  "charCodes [] = []"
| "charCodes (c # cs) = ucast c # charCodes cs"

definition arrayBufferToBase64 :: "platform \<Rightarrow> bytes \<Rightarrow> js_error + jsstring" where
  "arrayBufferToBase64 P buf = btoa P (fromCharCodes buf)"

definition base64ToArrayBuffer :: "platform \<Rightarrow> jsvalue \<Rightarrow> js_error + bytes" where
  "base64ToArrayBuffer P base64 =
     (case ToString_value P base64 of
        Inl e \<Rightarrow> Inl e
      | Inr s \<Rightarrow>
          (case atob P s of
             Inl e \<Rightarrow> Inl e
           | Inr binary_string \<Rightarrow> Inr (charCodes binary_string)))"

definition metadataBuffer :: "platform \<Rightarrow> metadata \<Rightarrow> bytes" where
  "metadataBuffer P m = TextEncoder_encode P (JSON_stringify P m)"

definition packageMetadata ::
  "platform \<Rightarrow> jsstring \<Rightarrow> uint8array \<Rightarrow> uint8array \<Rightarrow> uint8array \<Rightarrow> bytes \<Rightarrow> uint8array io"
where
  "packageMetadata P fileName sp se wiv wdek =
     io_then (securityLog [Lit ''Packaging metadata header.''] INFO)
    (io_bind (io_of (arrayBufferToBase64 P (buffer sp))) (\<lambda>sp64.
     io_bind (io_of (arrayBufferToBase64 P (buffer se))) (\<lambda>se64.
     io_bind (io_of (arrayBufferToBase64 P (buffer wiv))) (\<lambda>wiv64.
     io_bind (io_of (arrayBufferToBase64 P wdek)) (\<lambda>wdek64.
     let m = \<lparr>md_fileName = fileName, md_sp = sp64, md_se = se64,
                md_wiv = wiv64, md_wdek = wdek64\<rparr>;
         mb = metadataBuffer P m;
         headerLength = length MAGIC_HEADER + 4 + length mb;
         header = replicate headerLength 0;
         offset = 0
     in io_bind (io_of (array_set header MAGIC_HEADER offset)) (\<lambda>header.
        let offset = offset + length MAGIC_HEADER
        in io_bind (io_of (setUint32 header offset (length mb))) (\<lambda>header.
           let offset = offset + 4
           in io_bind (io_of (array_set header mb offset)) (\<lambda>header.
              io_then (securityLog [Lit ''Metadata packaged. Total header size: '',
                                    Num headerLength, Lit '' bytes.''] INFO)
             (io_return (new_Uint8Array header))))))))))"

record parsedMetadata =
  pm_fileName :: jsvalue
  pm_sp :: bytes
  pm_se :: bytes
  pm_wiv :: bytes
  pm_wdek :: bytes
  pm_headerLength :: nat

definition parseMetadata :: "platform \<Rightarrow> js_file \<Rightarrow> parsedMetadata io" where
  "parseMetadata P f =
     io_then (securityLog [Lit ''Starting metadata parsing.''] INFO)
    (let magicAndLengthBuffer = slice (file_bytes f) 0 8;
         magic = slice magicAndLengthBuffer 0 4
     in if at magic 0 \<noteq> at MAGIC_HEADER 0 \<or> at magic 1 \<noteq> at MAGIC_HEADER 1 \<or>
           at magic 2 \<noteq> at MAGIC_HEADER 2 \<or> at magic 3 \<noteq> at MAGIC_HEADER 3
        then io_throw (Error ''Invalid file format: Magic header mismatch.'')
        else
          io_bind (io_of (getUint32 magicAndLengthBuffer 4)) (\<lambda>metadataLength.
          let headerLength = 8 + metadataLength;
              metadataJsonBuffer = slice (file_bytes f) 8 headerLength;
              metadataJson = TextDecoder_decode P metadataJsonBuffer
          in io_bind (case JSON_parse P metadataJson of
                        None \<Rightarrow> io_throw (Error ''Invalid file format: Metadata JSON parsing failed.'')
                      | Some v \<Rightarrow> io_return v) (\<lambda>md.
             io_bind (io_of (get_property md (js ''fileName''))) (\<lambda>fileName.
             io_bind (io_of (get_property md (js ''sp''))) (\<lambda>sp64.
             io_bind (io_of (base64ToArrayBuffer P sp64)) (\<lambda>sp.
             io_bind (io_of (get_property md (js ''se''))) (\<lambda>se64.
             io_bind (io_of (base64ToArrayBuffer P se64)) (\<lambda>se.
             io_bind (io_of (get_property md (js ''wiv''))) (\<lambda>wiv64.
             io_bind (io_of (base64ToArrayBuffer P wiv64)) (\<lambda>wiv.
             io_bind (io_of (get_property md (js ''wdek''))) (\<lambda>wdek64.
             io_bind (io_of (base64ToArrayBuffer P wdek64)) (\<lambda>wdek.
             let parsed = \<lparr>pm_fileName = fileName, pm_sp = sp, pm_se = se, pm_wiv = wiv,
                            pm_wdek = wdek, pm_headerLength = headerLength\<rparr>
             in if length (pm_sp parsed) \<noteq> SALT_LENGTH \<or> length (pm_se parsed) \<noteq> SALT_LENGTH
                then io_throw (Error ''Metadata integrity check failed: Invalid salt length.'')
                else if length (pm_wiv parsed) \<noteq> AES_IV_LENGTH
                then io_throw (Error ''Metadata integrity check failed: Invalid wrapping IV length.'')
                else
                  io_then (securityLog [Lit ''Metadata parsed successfully. Header length: '',
                                        Num headerLength, Lit ''.''] INFO)
                 (io_return parsed)))))))))))))"

section \<open>The calls of \<^verbatim>\<open>crypto.subtle\<close>\<close>

text \<open>
  The Web Cryptography interface, for the calls the repository makes: the checks a call
  performs on its key (algorithm, usage, extractability, length) and the primitive of the
  platform it runs.
\<close>

definition importKey_raw ::
  "bytes \<Rightarrow> key_algorithm \<Rightarrow> bool \<Rightarrow> key_usage list \<Rightarrow> cryptokey io"
where
  "importKey_raw keyData alg ext us =
     (if alg = AES_GCM then
        (if \<not> list_all (\<lambda>u. u \<in> set [Encrypt, Decrypt, WrapKey, UnwrapKey]) us
         then io_throw SyntaxError
         else if length keyData \<notin> set [16, 24, 32] then io_throw DataError
         else if us = [] then io_throw SyntaxError
         else io_return \<lparr>key_raw = keyData, algorithm = alg, extractable = ext, usages = us\<rparr>)
      else
        (if \<not> list_all (\<lambda>u. u = DeriveKey) us then io_throw SyntaxError
         else if ext then io_throw SyntaxError
         else if us = [] then io_throw SyntaxError
         else io_return \<lparr>key_raw = keyData, algorithm = alg, extractable = False, usages = us\<rparr>))"

definition exportKey_raw :: "cryptokey \<Rightarrow> bytes io" where
  "exportKey_raw key =
     (if \<not> extractable key then io_throw InvalidAccessError else io_return (key_raw key))"

definition deriveKey_PBKDF2 ::
  "platform \<Rightarrow> bytes \<Rightarrow> nat \<Rightarrow> hash_algorithm \<Rightarrow> cryptokey \<Rightarrow> nat \<Rightarrow> bool \<Rightarrow> key_usage list
     \<Rightarrow> cryptokey io"
where
  "deriveKey_PBKDF2 P salt iterations hash baseKey lengthBits ext us =
     (if algorithm baseKey \<noteq> PBKDF2 \<or> DeriveKey \<notin> set (usages baseKey)
      then io_throw InvalidAccessError
      else if lengthBits \<notin> set [128, 192, 256] \<or> iterations = 0 then io_throw OperationError
      else if \<not> list_all (\<lambda>u. u \<in> set [Encrypt, Decrypt, WrapKey, UnwrapKey]) us \<or> us = []
      then io_throw SyntaxError
      else io_return \<lparr>key_raw = pbkdf2 P hash (key_raw baseKey) salt iterations lengthBits,
                       algorithm = AES_GCM, extractable = ext, usages = us\<rparr>)"

definition deriveKey_HKDF ::
  "platform \<Rightarrow> hash_algorithm \<Rightarrow> bytes \<Rightarrow> bytes \<Rightarrow> cryptokey \<Rightarrow> nat \<Rightarrow> bool \<Rightarrow> key_usage list
     \<Rightarrow> cryptokey io"
where
  "deriveKey_HKDF P hash salt info baseKey lengthBits ext us =
     (if algorithm baseKey \<noteq> HKDF \<or> DeriveKey \<notin> set (usages baseKey)
      then io_throw InvalidAccessError
      else if lengthBits \<notin> set [128, 192, 256] then io_throw OperationError
      else if \<not> list_all (\<lambda>u. u \<in> set [Encrypt, Decrypt, WrapKey, UnwrapKey]) us \<or> us = []
      then io_throw SyntaxError
      else io_return \<lparr>key_raw = hkdf P hash (key_raw baseKey) salt info lengthBits,
                       algorithm = AES_GCM, extractable = ext, usages = us\<rparr>)"

definition generateKey_AES_GCM :: "nat \<Rightarrow> bool \<Rightarrow> key_usage list \<Rightarrow> cryptokey io" where
  "generateKey_AES_GCM lengthBits ext us =
     (if lengthBits \<notin> set [128, 192, 256] then io_throw OperationError
      else if \<not> list_all (\<lambda>u. u \<in> set [Encrypt, Decrypt, WrapKey, UnwrapKey]) us \<or> us = []
      then io_throw SyntaxError
      else io_bind (getRandomValues (lengthBits div 8)) (\<lambda>r.
           io_return \<lparr>key_raw = u8_bytes r, algorithm = AES_GCM, extractable = ext, usages = us\<rparr>))"

definition encrypt_AES_GCM :: "platform \<Rightarrow> bytes \<Rightarrow> cryptokey \<Rightarrow> bytes \<Rightarrow> bytes io" where
  "encrypt_AES_GCM P iv key data =
     io_then (emit (Subtle_encrypt key iv data))
    (if algorithm key \<noteq> AES_GCM \<or> Encrypt \<notin> set (usages key) then io_throw InvalidAccessError
     else io_return (aes_gcm_encrypt P (key_raw key) iv data))"

definition decrypt_AES_GCM :: "platform \<Rightarrow> bytes \<Rightarrow> cryptokey \<Rightarrow> bytes \<Rightarrow> bytes io" where
  "decrypt_AES_GCM P iv key data =
     io_then (emit (Subtle_decrypt key iv data))
    (if algorithm key \<noteq> AES_GCM \<or> Decrypt \<notin> set (usages key) then io_throw InvalidAccessError
     else if length data < 16 then io_throw OperationError
     else case aes_gcm_decrypt P (key_raw key) iv data of
            None \<Rightarrow> io_throw OperationError
          | Some plaintext \<Rightarrow> io_return plaintext)"

section \<open>modules/KeyDerivation.ts\<close>

definition deriveKeyPBKDF2 :: "platform \<Rightarrow> jsstring \<Rightarrow> bytes \<Rightarrow> cryptokey io" where
  "deriveKeyPBKDF2 P secret salt =
     io_then (securityLog [Lit ''Starting PBKDF2 key derivation.''] INFO)
    (let secretBuffer = TextEncoder_encode P secret
     in io_bind (importKey_raw secretBuffer PBKDF2 False [DeriveKey]) (\<lambda>baseKey.
        io_bind (deriveKey_PBKDF2 P salt PBKDF2_iterations PBKDF2_hash baseKey
                   (PBKDF2_keyLen * 8) True [Encrypt, Decrypt, WrapKey, UnwrapKey]) (\<lambda>derivedKey.
        io_then (securityLog [Lit ''PBKDF2 key derivation successful.''] INFO)
       (io_return derivedKey))))"

section \<open>modules/KeyManagement.ts\<close>

definition generateDataEncryptionKey :: "cryptokey io" where
  "generateDataEncryptionKey =
     io_then (securityLog [Lit ''Generating random DEK.''] INFO)
    (generateKey_AES_GCM AES_KEY_LENGTH True [Encrypt, Decrypt])"

definition MASTER_KEY_INFO :: jsstring where
  "MASTER_KEY_INFO = js ''Dyad File Encryption Master Key''"

definition deriveMasterKey :: "platform \<Rightarrow> cryptokey \<Rightarrow> cryptokey \<Rightarrow> cryptokey io" where
  "deriveMasterKey P kp ke =
     io_then (securityLog [Lit ''Deriving Master Key (KM) using HKDF.''] INFO)
    (io_bind (exportKey_raw kp) (\<lambda>kpRaw.
     io_bind (exportKey_raw ke) (\<lambda>keRaw.
     let ikm = replicate (length kpRaw + length keRaw) 0
     in io_bind (io_of (array_set ikm kpRaw 0)) (\<lambda>ikm.
        io_bind (io_of (array_set ikm keRaw (length kpRaw))) (\<lambda>ikm.
        io_bind (importKey_raw ikm HKDF False [DeriveKey]) (\<lambda>hkdfKey.
        io_bind (deriveKey_HKDF P SHA_256 [] (TextEncoder_encode P MASTER_KEY_INFO) hkdfKey
                   AES_KEY_LENGTH False [Encrypt, Decrypt]) (\<lambda>km.
        io_then (securityLog [Lit ''Master Key derivation complete.''] INFO)
       (io_return km))))))))"

definition wrapDataKey :: "platform \<Rightarrow> cryptokey \<Rightarrow> cryptokey \<Rightarrow> (bytes \<times> uint8array) io" where
  "wrapDataKey P dek km =
     io_then (securityLog [Lit ''Wrapping DEK using KM (AES-GCM).''] INFO)
    (io_bind (exportKey_raw dek) (\<lambda>dekRaw.
     io_bind (getRandomValues AES_IV_LENGTH) (\<lambda>iv.
     io_bind (encrypt_AES_GCM P (u8_bytes iv) km dekRaw) (\<lambda>wrappedKey.
     io_then (securityLog [Lit ''DEK wrapping complete.''] INFO)
    (io_return (wrappedKey, iv))))))"

definition unwrapDataKey :: "platform \<Rightarrow> bytes \<Rightarrow> bytes \<Rightarrow> cryptokey \<Rightarrow> cryptokey io" where
  "unwrapDataKey P wrappedKey iv km =
     io_then (securityLog [Lit ''Attempting to unwrap DEK.''] INFO)
    (io_catch
      (io_bind (decrypt_AES_GCM P iv km wrappedKey) (\<lambda>dekRaw.
       io_bind (importKey_raw dekRaw AES_GCM True [Encrypt, Decrypt]) (\<lambda>dek.
       io_then (securityLog [Lit ''DEK unwrapping successful.''] INFO)
      (io_return dek))))
      (\<lambda>e.
       io_then (securityLog
                  [Lit ''DEK unwrapping failed. Invalid password/email combination.''] ERROR)
      (io_throw (Error ''Authentication failed: Invalid password or receiver email.''))))"

section \<open>modules/EncryptionStream.ts\<close>

definition encryptFileStream :: "platform \<Rightarrow> js_file \<Rightarrow> cryptokey \<Rightarrow> bytes io" where
  "encryptFileStream P f dek =
     io_then (securityLog [Lit ''Starting encryption for file: '', Str (file_name f)] INFO)
    (let fileBuffer = file_bytes f
     in io_then (securityLog [Lit ''File loaded into memory ('', Num (length fileBuffer),
                              Lit '' bytes).''] INFO)
       (io_bind (getRandomValues AES_IV_LENGTH) (\<lambda>iv.
        io_bind (encrypt_AES_GCM P (u8_bytes iv) dek fileBuffer) (\<lambda>encryptedDataWithTag.
        let ivBuffer = buffer iv;
            encryptedBlob = ivBuffer @ encryptedDataWithTag
        in io_then (securityLog [Lit ''File encryption complete.''] INFO)
          (io_return encryptedBlob)))))"

section \<open>modules/DecryptionStream.ts\<close>

definition decryptFileStream :: "platform \<Rightarrow> bytes \<Rightarrow> cryptokey \<Rightarrow> bytes io" where
  "decryptFileStream P encryptedBlob dek =
     io_then (securityLog [Lit ''Starting decryption and integrity verification.''] INFO)
    (let encryptedBuffer = encryptedBlob
     in if length encryptedBuffer < AES_IV_LENGTH + AES_TAG_LENGTH
        then io_throw (Error ''Encrypted data too short.'')
        else
          let iv = slice encryptedBuffer 0 AES_IV_LENGTH;
              ciphertextWithTag = slice_from encryptedBuffer AES_IV_LENGTH
          in io_catch
               (io_bind (decrypt_AES_GCM P iv dek ciphertextWithTag) (\<lambda>decryptedData.
                io_then (securityLog
                  [Lit ''Decryption successful. Integrity verified (Authentication Tag passed).'']
                  INFO)
               (io_return decryptedData)))
               (\<lambda>e.
                io_then (securityLog
                  [Lit ''Decryption failed. Authentication Tag verification failed.''] ERROR)
               (io_throw
                  (Error ''Integrity check failed: Data may be corrupted or key is incorrect.''))))"

section \<open>components/CryptoForm.tsx\<close>

definition ENCRYPTED_FILE_EXTENSION :: jsstring where
  "ENCRYPTED_FILE_EXTENSION = js ''.dyadenc''"

definition MIN_PASSWORD_LENGTH :: nat where
  "MIN_PASSWORD_LENGTH = 7"

text \<open>
  What a handler leaves behind: the toast it shows and, on success, the blob and the file
  name it hands to \<^verbatim>\<open>downloadFile\<close>. A failure toast shows the message of the error caught.
\<close>

datatype outcome =
  Missing_Inputs
  | Password_Too_Short
  | Encryption_Successful bytes jsstring
  | Encryption_Failed js_error
  | Decryption_Successful bytes jsvalue
  | Decryption_Failed js_error

text \<open>
  The body of the \<^verbatim>\<open>try\<close> block of \<^verbatim>\<open>handleEncrypt\<close> up to the final blob: the operation
  the specification calls \<^verbatim>\<open>encryptFile\<close>.
\<close>

definition encryptFile :: "platform \<Rightarrow> js_file \<Rightarrow> jsstring \<Rightarrow> jsstring \<Rightarrow> bytes io" where
  "encryptFile P f password receiverEmail =
     io_bind (generateSalt SALT_LENGTH) (\<lambda>sp.
     io_bind (generateSalt SALT_LENGTH) (\<lambda>se.
     io_bind (deriveKeyPBKDF2 P password (u8_bytes sp)) (\<lambda>kp.
     io_bind (deriveKeyPBKDF2 P receiverEmail (u8_bytes se)) (\<lambda>ke.
     io_bind (deriveMasterKey P kp ke) (\<lambda>km.
     io_bind generateDataEncryptionKey (\<lambda>dek.
     io_bind (wrapDataKey P dek km) (\<lambda>(wrappedKey, wiv).
     io_bind (encryptFileStream P f dek) (\<lambda>encryptedContentBlob.
     io_bind (packageMetadata P (file_name f) sp se wiv wrappedKey) (\<lambda>header.
     let finalBlob = u8_bytes header @ encryptedContentBlob
     in io_return finalBlob)))))))))"

definition handleEncrypt ::
  "platform \<Rightarrow> js_file option \<Rightarrow> jsstring \<Rightarrow> jsstring \<Rightarrow> world \<Rightarrow> outcome \<times> world"
where
  "handleEncrypt P file' password receiverEmail w =
     (case file' of
        None \<Rightarrow> (Missing_Inputs, w)
      | Some f \<Rightarrow>
          if password = [] \<or> receiverEmail = [] then (Missing_Inputs, w)
          else if length password < MIN_PASSWORD_LENGTH then (Password_Too_Short, w)
          else
            (case io_then (securityLog [Lit ''Starting encryption process.''] INFO)
                    (encryptFile P f password receiverEmail) w of
               (Inr finalBlob, w') \<Rightarrow>
                 (Encryption_Successful finalBlob (file_name f @ ENCRYPTED_FILE_EXTENSION), w')
             | (Inl error, w') \<Rightarrow>
                 (Encryption_Failed error,
                  snd (securityLog [Lit ''Encryption failed: '', Err error] ERROR w'))))"

text \<open>
  The body of the \<^verbatim>\<open>try\<close> block of \<^verbatim>\<open>handleDecrypt\<close> up to the download: the operation
  the specification calls \<^verbatim>\<open>decryptFile\<close>. It yields the decrypted blob and the file name
  read from the header.
\<close>

definition decryptFile ::
  "platform \<Rightarrow> js_file \<Rightarrow> jsstring \<Rightarrow> jsstring \<Rightarrow> (bytes \<times> jsvalue) io"
where
  "decryptFile P f password receiverEmail =
     io_bind (parseMetadata P f) (\<lambda>metadata.
     let encryptedContentBlob = slice_from (file_bytes f) (pm_headerLength metadata);
         sp = pm_sp metadata;
         se = pm_se metadata
     in io_bind (deriveKeyPBKDF2 P password sp) (\<lambda>kp.
        io_bind (deriveKeyPBKDF2 P receiverEmail se) (\<lambda>ke.
        io_bind (deriveMasterKey P kp ke) (\<lambda>km.
        io_bind (unwrapDataKey P (pm_wdek metadata) (pm_wiv metadata) km) (\<lambda>dek.
        io_bind (decryptFileStream P encryptedContentBlob dek) (\<lambda>decryptedBlob.
        let originalFileName = pm_fileName metadata
        in io_return (decryptedBlob, originalFileName)))))))"

definition handleDecrypt ::
  "platform \<Rightarrow> js_file option \<Rightarrow> jsstring \<Rightarrow> jsstring \<Rightarrow> world \<Rightarrow> outcome \<times> world"
where
  "handleDecrypt P file' password receiverEmail w =
     (case file' of
        None \<Rightarrow> (Missing_Inputs, w)
      | Some f \<Rightarrow>
          if password = [] \<or> receiverEmail = [] then (Missing_Inputs, w)
          else if length password < MIN_PASSWORD_LENGTH then (Password_Too_Short, w)
          else
            (case io_then (securityLog [Lit ''Starting decryption process.''] INFO)
                    (decryptFile P f password receiverEmail) w of
               (Inr (decryptedBlob, originalFileName), w') \<Rightarrow>
                 (Decryption_Successful decryptedBlob originalFileName, w')
             | (Inl error, w') \<Rightarrow>
                 (Decryption_Failed error,
                  snd (securityLog [Lit ''Decryption failed: '', Err error] ERROR w'))))"

section \<open>The error taxonomy\<close>

text \<open>
  The repository has one error class and tells its failures apart by their message. The
  three kinds of the specification are the messages it lists under each: a magic mismatch
  and a JSON failure are format errors; a wrong salt or IV length, a payload below the
  minimum and a payload tag failure are integrity errors; the failure of the key unwrap
  is the authentication error. An error of the platform belongs to no kind.
\<close>

datatype error_kind = FormatError | IntegrityError | AuthenticationError

definition kind_of :: "js_error \<Rightarrow> error_kind option" where
  "kind_of e =
     (if e = Error ''Invalid file format: Magic header mismatch.'' then Some FormatError
      else if e = Error ''Invalid file format: Metadata JSON parsing failed.'' then Some FormatError
      else if e = Error ''Metadata integrity check failed: Invalid salt length.''
      then Some IntegrityError
      else if e = Error ''Metadata integrity check failed: Invalid wrapping IV length.''
      then Some IntegrityError
      else if e = Error ''Encrypted data too short.'' then Some IntegrityError
      else if e = Error ''Integrity check failed: Data may be corrupted or key is incorrect.''
      then Some IntegrityError
      else if e = Error ''Authentication failed: Invalid password or receiver email.''
      then Some AuthenticationError
      else None)"

section \<open>What the theorems ask of the platform\<close>

text \<open>
  The theorems hold for every platform. Where a result needs a property of a platform
  function (base64 and JSON are lossless, the cipher decrypts what it encrypted), the
  property is asked for at the values of the run only.
\<close>

definition base64_of :: "platform \<Rightarrow> bytes \<Rightarrow> jsstring" where
  "base64_of P bs = (case btoa P (fromCharCodes bs) of Inl e \<Rightarrow> [] | Inr s \<Rightarrow> s)"

definition base64_encodes :: "platform \<Rightarrow> bytes \<Rightarrow> bool" where
  "base64_encodes P bs = (case btoa P (fromCharCodes bs) of Inl e \<Rightarrow> False | Inr s \<Rightarrow> True)"

definition base64_roundtrips :: "platform \<Rightarrow> bytes \<Rightarrow> bool" where
  "base64_roundtrips P bs =
     (case btoa P (fromCharCodes bs) of
        Inl e \<Rightarrow> False
      | Inr s \<Rightarrow> atob P s = Inr (fromCharCodes bs))"

definition metadata_of :: "platform \<Rightarrow> jsstring \<Rightarrow> bytes \<Rightarrow> bytes \<Rightarrow> bytes \<Rightarrow> bytes \<Rightarrow> metadata" where
  "metadata_of P fileName sp se wiv wdek =
     \<lparr>md_fileName = fileName, md_sp = base64_of P sp, md_se = base64_of P se,
      md_wiv = base64_of P wiv, md_wdek = base64_of P wdek\<rparr>"

definition json_roundtrips :: "platform \<Rightarrow> metadata \<Rightarrow> bool" where
  "json_roundtrips P m =
     (case JSON_parse P (TextDecoder_decode P (TextEncoder_encode P (JSON_stringify P m))) of
        Some (JObject ms) \<Rightarrow>
          map_of ms (js ''fileName'') = Some (JString (md_fileName m)) \<and>
          map_of ms (js ''sp'') = Some (JString (md_sp m)) \<and>
          map_of ms (js ''se'') = Some (JString (md_se m)) \<and>
          map_of ms (js ''wiv'') = Some (JString (md_wiv m)) \<and>
          map_of ms (js ''wdek'') = Some (JString (md_wdek m))
      | _ \<Rightarrow> False)"

text \<open>
  A header can be written: \<^verbatim>\<open>btoa\<close> accepts the four byte strings, and the JSON is shorter
  than \<open>2^32\<close> bytes (a JavaScript string cannot be longer), so its length fits the
  length field.
\<close>

definition header_encodable ::
  "platform \<Rightarrow> jsstring \<Rightarrow> bytes \<Rightarrow> bytes \<Rightarrow> bytes \<Rightarrow> bytes \<Rightarrow> bool"
where
  "header_encodable P fileName sp se wiv wdek =
     (base64_encodes P sp \<and> base64_encodes P se \<and> base64_encodes P wiv \<and>
      base64_encodes P wdek \<and>
      length (metadataBuffer P (metadata_of P fileName sp se wiv wdek)) < 2 ^ 32)"

text \<open>A header can be written and read back: the codecs are lossless on it.\<close>

definition header_codec_ok ::
  "platform \<Rightarrow> jsstring \<Rightarrow> bytes \<Rightarrow> bytes \<Rightarrow> bytes \<Rightarrow> bytes \<Rightarrow> bool"
where
  "header_codec_ok P fileName sp se wiv wdek =
     (base64_roundtrips P sp \<and> base64_roundtrips P se \<and> base64_roundtrips P wiv \<and>
      base64_roundtrips P wdek \<and>
      json_roundtrips P (metadata_of P fileName sp se wiv wdek) \<and>
      length (metadataBuffer P (metadata_of P fileName sp se wiv wdek)) < 2 ^ 32)"

text \<open>AES-GCM appends a 16-byte tag and decrypts what it encrypted.\<close>

definition aead_roundtrips :: "platform \<Rightarrow> bytes \<Rightarrow> bytes \<Rightarrow> bytes \<Rightarrow> bool" where
  "aead_roundtrips P key iv plaintext =
     (length (aes_gcm_encrypt P key iv plaintext) = length plaintext + 16 \<and>
      aes_gcm_decrypt P key iv (aes_gcm_encrypt P key iv plaintext) = Some plaintext)"

text \<open>The values of a run: the bytes it draws, and the keys it derives from them.\<close>

definition draw :: "world \<Rightarrow> nat \<Rightarrow> nat \<Rightarrow> bytes" where
  "draw w off n = map (rng w) [rng_pos w + off ..< rng_pos w + off + n]"

definition stretched_key :: "platform \<Rightarrow> jsstring \<Rightarrow> bytes \<Rightarrow> bytes" where
  "stretched_key P secret salt =
     pbkdf2 P SHA_256 (TextEncoder_encode P secret) salt 600000 256"

definition master_key :: "platform \<Rightarrow> jsstring \<Rightarrow> bytes \<Rightarrow> jsstring \<Rightarrow> bytes \<Rightarrow> bytes" where
  "master_key P password sp email se =
     hkdf P SHA_256 (stretched_key P password sp @ stretched_key P email se) []
       (TextEncoder_encode P MASTER_KEY_INFO) 256"

text \<open>
  The values of one run of \<^verbatim>\<open>encryptFile\<close> from the world \<open>w\<close>, in the order the code
  draws them: the two salts, the data key, the wrapping IV and the payload IV; then the
  master key and the wrapped data key computed from them.
\<close>

definition run_sp :: "world \<Rightarrow> bytes" where "run_sp w = draw w 0 16"
definition run_se :: "world \<Rightarrow> bytes" where "run_se w = draw w 16 16"
definition run_dek :: "world \<Rightarrow> bytes" where "run_dek w = draw w 32 32"
definition run_wiv :: "world \<Rightarrow> bytes" where "run_wiv w = draw w 64 12"
definition run_iv :: "world \<Rightarrow> bytes" where "run_iv w = draw w 76 12"

definition run_km :: "platform \<Rightarrow> jsstring \<Rightarrow> jsstring \<Rightarrow> world \<Rightarrow> bytes" where
  "run_km P password email w = master_key P password (run_sp w) email (run_se w)"

definition run_wdek :: "platform \<Rightarrow> jsstring \<Rightarrow> jsstring \<Rightarrow> world \<Rightarrow> bytes" where
  "run_wdek P password email w =
     aes_gcm_encrypt P (run_km P password email w) (run_wiv w) (run_dek w)"

definition run_metadata :: "platform \<Rightarrow> js_file \<Rightarrow> jsstring \<Rightarrow> jsstring \<Rightarrow> world \<Rightarrow> metadata" where
  "run_metadata P f password email w =
     metadata_of P (file_name f) (run_sp w) (run_se w) (run_wiv w) (run_wdek P password email w)"

definition run_payload :: "platform \<Rightarrow> js_file \<Rightarrow> world \<Rightarrow> bytes" where
  "run_payload P f w = run_iv w @ aes_gcm_encrypt P (run_dek w) (run_iv w) (file_bytes f)"

text \<open>The header of the run can be written; it can be written and read back.\<close>

definition run_encodable :: "platform \<Rightarrow> js_file \<Rightarrow> jsstring \<Rightarrow> jsstring \<Rightarrow> world \<Rightarrow> bool" where
  "run_encodable P f password email w =
     header_encodable P (file_name f) (run_sp w) (run_se w) (run_wiv w)
       (run_wdek P password email w)"

definition run_codec_ok :: "platform \<Rightarrow> js_file \<Rightarrow> jsstring \<Rightarrow> jsstring \<Rightarrow> world \<Rightarrow> bool" where
  "run_codec_ok P f password email w =
     header_codec_ok P (file_name f) (run_sp w) (run_se w) (run_wiv w)
       (run_wdek P password email w)"

text \<open>The platform is lossless on the run: on its header, its wrapped key and its payload.\<close>

definition run_ok :: "platform \<Rightarrow> js_file \<Rightarrow> jsstring \<Rightarrow> jsstring \<Rightarrow> world \<Rightarrow> bool" where
  "run_ok P f password email w =
     (run_codec_ok P f password email w \<and>
      aead_roundtrips P (run_km P password email w) (run_wiv w) (run_dek w) \<and>
      aead_roundtrips P (run_dek w) (run_iv w) (file_bytes f))"

section \<open>A reference platform\<close>

text \<open>
  A small platform on which the theorems are exercised at concrete inputs: base64 as the
  browsers implement it, JSON and UTF-8 restricted to what a header of ASCII text needs,
  and a toy key derivation and cipher in place of PBKDF2, HKDF and AES-GCM. No theorem
  depends on it; the witnesses instantiate the platform with it.
\<close>

definition ref_encode :: "jsstring \<Rightarrow> bytes" where
  "ref_encode s = concat (map (\<lambda>c. if c < 0x80 then [ucast c] else [0xEF, 0xBF, 0xBD]) s)"

definition ref_decode :: "bytes \<Rightarrow> jsstring" where
  "ref_decode bs = map (\<lambda>b. if b < 0x80 then ucast b else 0xFFFD) bs"

definition b64_char :: "nat \<Rightarrow> 16 word" where
  "b64_char n =
     (if n < 26 then of_nat (65 + n)
      else if n < 52 then of_nat (71 + n)
      else if n < 62 then of_nat (n - 4)
      else if n = 62 then 43 else 47)"

definition b64_value :: "16 word \<Rightarrow> nat option" where
  "b64_value c =
     (let n = unat c
      in if 65 \<le> n \<and> n \<le> 90 then Some (n - 65)
         else if 97 \<le> n \<and> n \<le> 122 then Some (n - 71)
         else if 48 \<le> n \<and> n \<le> 57 then Some (n + 4)
         else if n = 43 then Some 62
         else if n = 47 then Some 63
         else None)"

fun b64_encode :: "nat list \<Rightarrow> jsstring" where
  "b64_encode [] = []"
| "b64_encode [a] = [b64_char (a div 4), b64_char (a mod 4 * 16), 61, 61]"
| "b64_encode [a, b] =
     [b64_char (a div 4), b64_char (a mod 4 * 16 + b div 16), b64_char (b mod 16 * 4), 61]"
| "b64_encode (a # b # c # r) =
     [b64_char (a div 4), b64_char (a mod 4 * 16 + b div 16),
      b64_char (b mod 16 * 4 + c div 64), b64_char (c mod 64)] @ b64_encode r"

fun b64_decode :: "nat list \<Rightarrow> nat list" where
  "b64_decode (p # q # r # s # t) =
     [p * 4 + q div 16, q mod 16 * 16 + r div 4, r mod 4 * 64 + s] @ b64_decode t"
| "b64_decode [p, q, r] = [p * 4 + q div 16, q mod 16 * 16 + r div 4]"
| "b64_decode [p, q] = [p * 4 + q div 16]"
| "b64_decode t = []"

definition ref_btoa :: "jsstring \<Rightarrow> js_error + jsstring" where
  "ref_btoa s =
     (if list_all (\<lambda>c. c \<le> 0xFF) s then Inr (b64_encode (map unat s))
      else Inl InvalidCharacterError)"

definition strip_padding :: "jsstring \<Rightarrow> jsstring" where
  "strip_padding s =
     (if length s mod 4 = 0 \<and> s \<noteq> [] \<and> last s = 61
      then (if butlast s \<noteq> [] \<and> last (butlast s) = 61 then butlast (butlast s) else butlast s)
      else s)"

definition ref_atob :: "jsstring \<Rightarrow> js_error + jsstring" where
  "ref_atob s =
     (let t = strip_padding (filter (\<lambda>c. c \<notin> set [9, 10, 12, 13, 32]) s)
      in if length t mod 4 = 1 \<or> \<not> list_all (\<lambda>c. b64_value c \<noteq> None) t
         then Inl InvalidCharacterError
         else Inr (map of_nat (b64_decode (map (\<lambda>c. the (b64_value c)) t))))"

definition json_quote :: "jsstring \<Rightarrow> jsstring" where
  "json_quote s =
     [0x22] @ concat (map (\<lambda>c. if c = 0x22 \<or> c = 0x5C then [0x5C, c] else [c]) s) @ [0x22]"

definition ref_stringify :: "metadata \<Rightarrow> jsstring" where
  "ref_stringify m =
     js ''{'' @ json_quote (js ''fileName'') @ js '':'' @ json_quote (md_fileName m)
     @ js '','' @ json_quote (js ''sp'') @ js '':'' @ json_quote (md_sp m)
     @ js '','' @ json_quote (js ''se'') @ js '':'' @ json_quote (md_se m)
     @ js '','' @ json_quote (js ''wiv'') @ js '':'' @ json_quote (md_wiv m)
     @ js '','' @ json_quote (js ''wdek'') @ js '':'' @ json_quote (md_wdek m)
     @ js ''}''"

datatype token = LBrace | RBrace | Colon | Comma | StringToken jsstring

fun lex :: "jsstring \<Rightarrow> jsstring option \<Rightarrow> token list option" where
  "lex [] None = Some []"
| "lex [] (Some acc) = None"
| "lex (c # cs) None =
     (if c = 0x22 then lex cs (Some [])
      else if c = 0x7B then map_option (Cons LBrace) (lex cs None)
      else if c = 0x7D then map_option (Cons RBrace) (lex cs None)
      else if c = 0x3A then map_option (Cons Colon) (lex cs None)
      else if c = 0x2C then map_option (Cons Comma) (lex cs None)
      else None)"
| "lex (c # cs) (Some acc) =
     (if c = 0x22 then map_option (Cons (StringToken acc)) (lex cs None)
      else if c = 0x5C then
        (case cs of
           [] \<Rightarrow> None
         | d # ds \<Rightarrow> if d = 0x22 \<or> d = 0x5C then lex ds (Some (acc @ [d])) else None)
      else lex cs (Some (acc @ [c])))"

fun members :: "token list \<Rightarrow> (jsstring \<times> json) list option" where
  "members [StringToken k, Colon, StringToken v, RBrace] = Some [(k, JString v)]"
| "members (StringToken k # Colon # StringToken v # Comma # rest) =
     map_option (Cons (k, JString v)) (members rest)"
| "members ts = None"

definition ref_parse :: "jsstring \<Rightarrow> json option" where
  "ref_parse s =
     (case lex s None of
        Some (LBrace # ts) \<Rightarrow>
          if ts = [RBrace] then Some (JObject []) else map_option JObject (members ts)
      | _ \<Rightarrow> None)"

definition mix :: "bytes \<Rightarrow> nat" where
  "mix bs = fold (\<lambda>b acc. (5 * acc + unat b + 1) mod 256) bs 0"

primrec stretch :: "nat \<Rightarrow> nat \<Rightarrow> bytes" where
  "stretch 0 seed = []"
| "stretch (Suc n) seed = of_nat seed # stretch n ((2 * seed + 1) mod 256)"

definition ref_pbkdf2 :: "hash_algorithm \<Rightarrow> bytes \<Rightarrow> bytes \<Rightarrow> nat \<Rightarrow> nat \<Rightarrow> bytes" where
  "ref_pbkdf2 h password salt iterations lengthBits =
     stretch (lengthBits div 8) ((mix password + 3 * mix salt + iterations) mod 256)"

definition ref_hkdf :: "hash_algorithm \<Rightarrow> bytes \<Rightarrow> bytes \<Rightarrow> bytes \<Rightarrow> nat \<Rightarrow> bytes" where
  "ref_hkdf h ikm salt info lengthBits =
     stretch (lengthBits div 8) ((mix ikm + 3 * mix salt + 7 * mix info) mod 256)"

text \<open>
  The toy cipher adds a key stream to the plaintext and appends sixteen copies of a one-byte
  tag over the key, the IV and the ciphertext.
\<close>

definition ref_pad1 :: "bytes \<Rightarrow> bytes \<Rightarrow> nat" where
  "ref_pad1 key iv = (mix key + mix iv) mod 256"

definition ref_pad2 :: "bytes \<Rightarrow> bytes \<Rightarrow> nat" where
  "ref_pad2 key iv = (3 * mix key + mix iv + 1) mod 256"

primrec ref_stream :: "nat \<Rightarrow> nat \<Rightarrow> bytes \<Rightarrow> bytes" where
  "ref_stream p q [] = []"
| "ref_stream p q (b # bs) = of_nat ((unat b + p) mod 256) # ref_stream ((p + q) mod 256) q bs"

primrec ref_unstream :: "nat \<Rightarrow> nat \<Rightarrow> bytes \<Rightarrow> bytes" where
  "ref_unstream p q [] = []"
| "ref_unstream p q (b # bs) =
     of_nat ((unat b + 256 - p) mod 256) # ref_unstream ((p + q) mod 256) q bs"

definition ref_tag :: "bytes \<Rightarrow> bytes \<Rightarrow> bytes \<Rightarrow> bytes" where
  "ref_tag key iv ciphertext =
     replicate 16
       (of_nat ((sum_list (map unat ciphertext) + ref_pad1 key iv + ref_pad2 key iv) mod 256))"

definition ref_encrypt :: "bytes \<Rightarrow> bytes \<Rightarrow> bytes \<Rightarrow> bytes" where
  "ref_encrypt key iv plaintext =
     (let ciphertext = ref_stream (ref_pad1 key iv) (ref_pad2 key iv) plaintext
      in ciphertext @ ref_tag key iv ciphertext)"

definition ref_decrypt :: "bytes \<Rightarrow> bytes \<Rightarrow> bytes \<Rightarrow> bytes option" where
  "ref_decrypt key iv data =
     (if length data < 16 then None
      else
        let ciphertext = take (length data - 16) data;
            tag = drop (length data - 16) data
        in if tag = ref_tag key iv ciphertext
           then Some (ref_unstream (ref_pad1 key iv) (ref_pad2 key iv) ciphertext)
           else None)"

definition ref_platform :: platform where
  "ref_platform =
     \<lparr>TextEncoder_encode = ref_encode, TextDecoder_decode = ref_decode,
      btoa = ref_btoa, atob = ref_atob,
      JSON_stringify = ref_stringify, JSON_parse = ref_parse,
      Number_toString = (\<lambda>n. js ''0''),
      pbkdf2 = ref_pbkdf2, hkdf = ref_hkdf,
      aes_gcm_encrypt = ref_encrypt, aes_gcm_decrypt = ref_decrypt\<rparr>"

definition ref_world :: world where
  "ref_world = \<lparr>rng = (\<lambda>i. of_nat ((37 * i + 11) mod 256)), rng_pos = 0, trace = []\<rparr>"

text \<open>The inputs of the scenario of the specification.\<close>

definition ref_file :: js_file where
  "ref_file = \<lparr>file_name = js ''a.txt'', file_bytes = [104, 101, 108, 108, 111]\<rparr>"

definition ref_password :: jsstring where
  "ref_password = js ''correcthorse''"

definition ref_email :: jsstring where
  "ref_email = js ''a@b.com''"


definition bad_b64_file :: js_file where
  "bad_b64_file =
     (let mb = ref_encode (ref_stringify \<lparr>md_fileName = js ''a.txt'', md_sp = js ''!'',
                 md_se = js ''AA=='', md_wiv = js ''AA=='', md_wdek = js ''AA==''\<rparr>)
      in \<lparr>file_name = js ''a.txt.dyadenc'',
          file_bytes = MAGIC_HEADER @ uint32_le (length mb) @ mb\<rparr>)"

definition ref_world2 :: world where
  "ref_world2 =
     \<lparr>rng = (\<lambda>i.
        [11, 48, 85, 122, 159, 196, 233, 14, 51, 88, 125, 162, 199, 236, 18, 49,
         91, 128, 165, 202, 239, 20, 57, 94, 131, 168, 205, 242, 23, 60, 98, 129,
         43, 208, 117, 26, 191, 100, 9, 174, 83, 248, 157, 66, 231, 140, 49, 214,
         123, 32, 197, 106, 15, 180, 89, 254, 163, 72, 237, 146, 55, 220, 129, 38,
         75, 112, 149, 186, 223, 4, 41, 78, 115, 152, 189, 98,
         8, 44, 81, 118, 155, 192, 229, 10, 47, 84, 121, 158] ! i),
      rng_pos = 0, trace = []\<rparr>"

section \<open>The shape of an envelope and of a trace\<close>

text \<open>
  The envelope as the specification lays it out: the magic, the little-endian length of the
  metadata JSON, the JSON, the payload. The theorems compare it with what the code assembles.
\<close>

definition envelope_layout ::
  "platform \<Rightarrow> jsstring \<Rightarrow> bytes \<Rightarrow> bytes \<Rightarrow> bytes \<Rightarrow> bytes \<Rightarrow> bytes \<Rightarrow> bytes"
where
  "envelope_layout P fileName sp se wiv wdek payload =
     [0x44, 0x59, 0x41, 0x44]
     @ uint32_le (length (metadataBuffer P (metadata_of P fileName sp se wiv wdek)))
     @ metadataBuffer P (metadata_of P fileName sp se wiv wdek)
     @ payload"

text \<open>
  The envelope of the reference run with one bit flipped in the first character of its
  wrapped-key field (byte 125 of the file): \<^verbatim>\<open>4\<close> becomes \<^verbatim>\<open>$\<close>.
\<close>

definition ref_envelope :: bytes where
  "ref_envelope =
     envelope_layout ref_platform (file_name ref_file) (run_sp ref_world) (run_se ref_world)
       (run_wiv ref_world) (run_wdek ref_platform ref_password ref_email ref_world)
       (run_payload ref_platform ref_file ref_world)"

definition tampered_file :: js_file where
  "tampered_file =
     \<lparr>file_name = js ''a.txt.dyadenc'', file_bytes = ref_envelope[125 := 0x24]\<rparr>"

text \<open>The keys the pipeline holds, as key objects.\<close>

definition master_cryptokey :: "platform \<Rightarrow> jsstring \<Rightarrow> bytes \<Rightarrow> jsstring \<Rightarrow> bytes \<Rightarrow> cryptokey" where
  "master_cryptokey P password sp email se =
     \<lparr>key_raw = master_key P password sp email se, algorithm = AES_GCM,
      extractable = False, usages = [Encrypt, Decrypt]\<rparr>"

definition data_cryptokey :: "bytes \<Rightarrow> cryptokey" where
  "data_cryptokey raw =
     \<lparr>key_raw = raw, algorithm = AES_GCM, extractable = True, usages = [Encrypt, Decrypt]\<rparr>"

text \<open>The events a run adds to the trace, and the lines the ordering claims speak of.\<close>

definition new_events :: "world \<Rightarrow> world \<Rightarrow> event list" where
  "new_events w w' = drop (length (trace w)) (trace w')"

definition is_decrypt_call :: "event \<Rightarrow> bool" where
  "is_decrypt_call e = (case e of Subtle_decrypt key iv data \<Rightarrow> True | _ \<Rightarrow> False)"

definition parse_log :: "nat \<Rightarrow> event list" where
  "parse_log headerLength =
     [Console INFO [Lit ''Starting metadata parsing.''],
      Console INFO [Lit ''Metadata parsed successfully. Header length: '',
                    Num headerLength, Lit ''.'']]"

definition derivation_log :: "event list" where
  "derivation_log =
     [Console INFO [Lit ''Starting PBKDF2 key derivation.''],
      Console INFO [Lit ''PBKDF2 key derivation successful.''],
      Console INFO [Lit ''Starting PBKDF2 key derivation.''],
      Console INFO [Lit ''PBKDF2 key derivation successful.''],
      Console INFO [Lit ''Deriving Master Key (KM) using HKDF.''],
      Console INFO [Lit ''Master Key derivation complete.'']]"

definition UNWRAP_ATTEMPT :: event where
  "UNWRAP_ATTEMPT = Console INFO [Lit ''Attempting to unwrap DEK.'']"

definition UNWRAP_OK :: event where
  "UNWRAP_OK = Console INFO [Lit ''DEK unwrapping successful.'']"

definition UNWRAP_FAILED :: event where
  "UNWRAP_FAILED =
     Console ERROR [Lit ''DEK unwrapping failed. Invalid password/email combination.'']"

definition PAYLOAD_START :: event where
  "PAYLOAD_START = Console INFO [Lit ''Starting decryption and integrity verification.'']"

definition PAYLOAD_OK :: event where
  "PAYLOAD_OK =
     Console INFO
       [Lit ''Decryption successful. Integrity verified (Authentication Tag passed).'']"

definition PAYLOAD_FAILED :: event where
  "PAYLOAD_FAILED =
     Console ERROR [Lit ''Decryption failed. Authentication Tag verification failed.'']"

section \<open>The monad and the byte-level helpers\<close>

lemma io_bind_return [simp]: "io_bind (io_return x) f = f x"
  by (simp add: io_bind_def io_return_def)

lemma io_bind_throw [simp]: "io_bind (io_throw e) f = io_throw e"
  by (simp add: io_bind_def io_throw_def)

lemma io_of_Inr [simp]: "io_of (Inr x) = io_return x"
  by (simp add: io_of_def io_return_def)

lemma io_of_Inl [simp]: "io_of (Inl e) = io_throw e"
  by (simp add: io_of_def io_throw_def)

lemma io_then_emit [simp]: "io_then (emit e) k w = k (w\<lparr>trace := trace w @ [e]\<rparr>)"
  by (simp add: io_then_def io_bind_def emit_def)

lemma io_return_run [simp]: "io_return x w = (Inr x, w)"
  by (simp add: io_return_def)

lemma io_throw_run [simp]: "io_throw e w = (Inl e, w)"
  by (simp add: io_throw_def)

lemma io_bind_run: "m w = (Inr x, w') \<Longrightarrow> io_bind m f w = f x w'"
  by (simp add: io_bind_def)

lemma io_bind_fail: "m w = (Inl e, w') \<Longrightarrow> io_bind m f w = (Inl e, w')"
  by (simp add: io_bind_def)

lemma uint32_le_length [simp]: "length (uint32_le n) = 4"
  by (simp add: uint32_le_def Let_def)

lemma unat_of_nat_byte: "unat (of_nat n :: byte) = n mod 256"
  by (simp add: unat_of_nat)

lemma le32_digits:
  assumes "n < 2 ^ 32"
  shows "n mod 256 + 256 * (n div 256 mod 256) + 65536 * (n div 65536 mod 256)
          + 16777216 * (n div 16777216 mod 256) = (n::nat)"
proof -
  have d1: "n div 65536 = n div 256 div 256" by (simp add: div_mult2_eq)
  have d2: "n div 16777216 = n div 256 div 256 div 256" by (simp add: div_mult2_eq)
  have small: "n div 256 div 256 div 256 < 256" using assms by (simp add: div_mult2_eq)
  define a where "a = n div 256"
  define b where "b = a div 256"
  define c where "c = b div 256"
  have "n = n mod 256 + 256 * a" by (simp add: a_def)
  moreover have "a = a mod 256 + 256 * b" by (simp add: b_def)
  moreover have "b = b mod 256 + 256 * c" by (simp add: c_def)
  moreover have "c mod 256 = c" using small by (simp add: a_def b_def c_def)
  ultimately show ?thesis
    unfolding d1 d2 a_def[symmetric] b_def[symmetric] c_def[symmetric] by linarith
qed

lemma getUint32_uint32_le:
  assumes "n < 2 ^ 32"
  shows "getUint32 (pre @ uint32_le n @ post) (length pre) = Inr n"
proof -
  have nth: "\<And>i. i < 4 \<Longrightarrow> (pre @ uint32_le n @ post) ! (length pre + i) = uint32_le n ! i"
    by (simp add: nth_append)
  have m: "n mod 2 ^ 32 = n" using assms by simp
  have "getUint32 (pre @ uint32_le n @ post) (length pre)
        = Inr (n mod 256 + 256 * (n div 256 mod 256) + 65536 * (n div 65536 mod 256)
          + 16777216 * (n div 16777216 mod 256))"
    using nth[of 0] nth[of 1] nth[of 2] nth[of 3]
    by (simp add: getUint32_def uint32_le_def Let_def unat_of_nat_byte m del: power_numeral)
  moreover have "n div 16777216 < 256" using assms by simp
  ultimately show ?thesis using le32_digits[OF assms] by simp
qed

lemma charCodes_fromCharCodes [simp]: "charCodes (fromCharCodes bs) = bs"
proof (induction bs)
  case Nil
  show ?case by simp
next
  case (Cons b bs)
  have "(ucast (ucast b :: 16 word) :: 8 word) = b"
    by (rule ucast_up_ucast_id) (simp add: is_up)
  with Cons show ?case by simp
qed

lemma array_set_replicate:
  "array_set (pre @ replicate (length xs + k) 0) xs (length pre) = Inr (pre @ xs @ replicate k 0)"
  by (simp add: array_set_def)

lemma length_MAGIC_HEADER [simp]: "length MAGIC_HEADER = 4"
  by (simp add: MAGIC_HEADER_def)

lemma header_assembly:
  fixes mb :: bytes
  shows "array_set (replicate (8 + length mb) 0) MAGIC_HEADER 0
           = Inr (MAGIC_HEADER @ replicate (4 + length mb) 0)"
    and "setUint32 (MAGIC_HEADER @ replicate (4 + length mb) 0) 4 n
           = Inr (MAGIC_HEADER @ uint32_le n @ replicate (length mb) 0)"
    and "array_set (MAGIC_HEADER @ uint32_le n @ replicate (length mb) 0) mb 8
           = Inr (MAGIC_HEADER @ uint32_le n @ mb)"
proof -
  show "array_set (replicate (8 + length mb) 0) MAGIC_HEADER 0
           = Inr (MAGIC_HEADER @ replicate (4 + length mb) 0)"
    using array_set_replicate[of "[]" MAGIC_HEADER "4 + length mb"] by simp
  show "setUint32 (MAGIC_HEADER @ replicate (4 + length mb) 0) 4 n
           = Inr (MAGIC_HEADER @ uint32_le n @ replicate (length mb) 0)"
    using array_set_replicate[of MAGIC_HEADER "uint32_le n" "length mb"]
    by (simp add: setUint32_def)
  show "array_set (MAGIC_HEADER @ uint32_le n @ replicate (length mb) 0) mb 8
           = Inr (MAGIC_HEADER @ uint32_le n @ mb)"
    using array_set_replicate[of "MAGIC_HEADER @ uint32_le n" mb 0] by simp
qed

lemma packageMetadata_run:
  assumes "btoa P (fromCharCodes (buffer sp)) = Inr sp64"
    and "btoa P (fromCharCodes (buffer se)) = Inr se64"
    and "btoa P (fromCharCodes (buffer wiv)) = Inr wiv64"
    and "btoa P (fromCharCodes wdek) = Inr wdek64"
    and "mb = metadataBuffer P \<lparr>md_fileName = fileName, md_sp = sp64, md_se = se64,
                md_wiv = wiv64, md_wdek = wdek64\<rparr>"
  shows "packageMetadata P fileName sp se wiv wdek w =
     (Inr (new_Uint8Array (MAGIC_HEADER @ uint32_le (length mb) @ mb)),
      w\<lparr>trace := trace w @
         [Console INFO [Lit ''Packaging metadata header.''],
          Console INFO [Lit ''Metadata packaged. Total header size: '',
                        Num (8 + length mb), Lit '' bytes.'']]\<rparr>)"
  using assms(1-4)
  by (simp add: packageMetadata_def securityLog_def arrayBufferToBase64_def Let_def
      header_assembly assms(5)[symmetric])

section \<open>One stage at a time\<close>

lemma slice_header:
  assumes "bs = MAGIC_HEADER @ uint32_le n @ mb @ payload"
  shows "slice bs 0 8 = MAGIC_HEADER @ uint32_le n"
    and "slice bs 8 (8 + length mb) = mb"
    and "slice_from bs (8 + length mb) = payload"
  using assms by (simp_all add: slice_def slice_from_def)

lemma slice_magic: "slice (MAGIC_HEADER @ rest) 0 4 = MAGIC_HEADER"
  by (simp add: slice_def)

lemma getUint32_header:
  "n < 2 ^ 32 \<Longrightarrow> getUint32 (MAGIC_HEADER @ uint32_le n) 4 = Inr n"
  using getUint32_uint32_le[of n MAGIC_HEADER "[]"] by simp

lemma parseMetadata_fields:
  assumes bytes: "file_bytes f = MAGIC_HEADER @ uint32_le (length mb) @ mb @ payload"
    and len: "length mb < 2 ^ 32"
    and json: "JSON_parse P (TextDecoder_decode P mb) = Some (JObject ms)"
    and fields: "map_of ms (js ''fileName'') = fn"
      "map_of ms (js ''sp'') = Some (JString sp64)"
      "map_of ms (js ''se'') = Some (JString se64)"
      "map_of ms (js ''wiv'') = Some (JString wiv64)"
      "map_of ms (js ''wdek'') = Some (JString wdek64)"
    and b64: "atob P sp64 = Inr (fromCharCodes sp)" "atob P se64 = Inr (fromCharCodes se)"
      "atob P wiv64 = Inr (fromCharCodes wiv)" "atob P wdek64 = Inr (fromCharCodes wdek)"
  shows "parseMetadata P f w =
     (if length sp \<noteq> 16 \<or> length se \<noteq> 16
      then (Inl (Error ''Metadata integrity check failed: Invalid salt length.''),
            w\<lparr>trace := trace w @ [Console INFO [Lit ''Starting metadata parsing.'']]\<rparr>)
      else if length wiv \<noteq> 12
      then (Inl (Error ''Metadata integrity check failed: Invalid wrapping IV length.''),
            w\<lparr>trace := trace w @ [Console INFO [Lit ''Starting metadata parsing.'']]\<rparr>)
      else
        (Inr \<lparr>pm_fileName = fn, pm_sp = sp, pm_se = se, pm_wiv = wiv, pm_wdek = wdek,
              pm_headerLength = 8 + length mb\<rparr>,
         w\<lparr>trace := trace w @
            [Console INFO [Lit ''Starting metadata parsing.''],
             Console INFO [Lit ''Metadata parsed successfully. Header length: '',
                           Num (8 + length mb), Lit ''.'']]\<rparr>))"
  unfolding parseMetadata_def
  by (simp add: slice_header[OF bytes] slice_magic getUint32_header[OF len] json fields b64
      securityLog_def base64ToArrayBuffer_def ToString_value_def SALT_LENGTH_def
      AES_IV_LENGTH_def Let_def)

lemma parseMetadata_run:
  assumes bytes: "file_bytes f = MAGIC_HEADER @ uint32_le (length mb) @ mb @ payload"
    and len: "length mb < 2 ^ 32"
    and json: "JSON_parse P (TextDecoder_decode P mb) = Some (JObject ms)"
    and fields: "map_of ms (js ''fileName'') = fn"
      "map_of ms (js ''sp'') = Some (JString sp64)"
      "map_of ms (js ''se'') = Some (JString se64)"
      "map_of ms (js ''wiv'') = Some (JString wiv64)"
      "map_of ms (js ''wdek'') = Some (JString wdek64)"
    and b64: "atob P sp64 = Inr (fromCharCodes sp)" "atob P se64 = Inr (fromCharCodes se)"
      "atob P wiv64 = Inr (fromCharCodes wiv)" "atob P wdek64 = Inr (fromCharCodes wdek)"
    and lens: "length sp = 16" "length se = 16" "length wiv = 12"
  shows "parseMetadata P f w =
     (Inr \<lparr>pm_fileName = fn, pm_sp = sp, pm_se = se, pm_wiv = wiv, pm_wdek = wdek,
           pm_headerLength = 8 + length mb\<rparr>,
      w\<lparr>trace := trace w @
         [Console INFO [Lit ''Starting metadata parsing.''],
          Console INFO [Lit ''Metadata parsed successfully. Header length: '',
                        Num (8 + length mb), Lit ''.'']]\<rparr>)"
  using parseMetadata_fields[OF bytes len json fields b64, of w] lens by simp

lemma base64_encodes_btoa:
  "base64_encodes P bs \<Longrightarrow> btoa P (fromCharCodes bs) = Inr (base64_of P bs)"
  by (simp add: base64_encodes_def base64_of_def split: sum.splits)

lemma base64_roundtrips_btoa:
  "base64_roundtrips P bs \<Longrightarrow> btoa P (fromCharCodes bs) = Inr (base64_of P bs)"
  by (simp add: base64_roundtrips_def base64_of_def split: sum.splits)

lemma base64_roundtrips_atob:
  "base64_roundtrips P bs \<Longrightarrow> atob P (base64_of P bs) = Inr (fromCharCodes bs)"
  by (simp add: base64_roundtrips_def base64_of_def split: sum.splits)

lemma draw_rng_pos [simp]: "draw (w\<lparr>rng_pos := p\<rparr>) off n = map (rng w) [p + off ..< p + off + n]"
  by (simp add: draw_def)

lemma draw_trace [simp]: "draw (w\<lparr>trace := t\<rparr>) off n = draw w off n"
  by (simp add: draw_def)

lemma draw_shift: "map (rng w) [rng_pos w + k + off ..< rng_pos w + k + off + n] = draw w (k + off) n"
  by (simp add: draw_def add.assoc)

lemma length_draw [simp]: "length (draw w off n) = n"
  by (simp add: draw_def)

lemma u8_bytes_new [simp]: "u8_bytes (new_Uint8Array bs) = bs"
  by (simp add: u8_bytes_def new_Uint8Array_def)

lemma buffer_new [simp]: "buffer (new_Uint8Array bs) = bs"
  by (simp add: new_Uint8Array_def)


lemma getRandomValues_run:
  "n \<le> 65536 \<Longrightarrow>
   getRandomValues n w = (Inr (new_Uint8Array (draw w 0 n)), w\<lparr>rng_pos := rng_pos w + n\<rparr>)"
  by (simp add: getRandomValues_def draw_def)

lemma deriveKeyPBKDF2_run:
  "deriveKeyPBKDF2 P secret salt w =
     (Inr \<lparr>key_raw = stretched_key P secret salt, algorithm = AES_GCM, extractable = True,
           usages = [Encrypt, Decrypt, WrapKey, UnwrapKey]\<rparr>,
      w\<lparr>trace := trace w @
         [Console INFO [Lit ''Starting PBKDF2 key derivation.''],
          Console INFO [Lit ''PBKDF2 key derivation successful.'']]\<rparr>)"
  by (simp add: deriveKeyPBKDF2_def securityLog_def importKey_raw_def deriveKey_PBKDF2_def
      stretched_key_def PBKDF2_iterations_def PBKDF2_hash_def PBKDF2_keyLen_def Let_def)

lemma ikm_assembly:
  "array_set (replicate (length a + length b) 0) a 0 = Inr (a @ replicate (length b) 0)"
  "array_set (a @ replicate (length b) 0) b (length a) = Inr (a @ b)"
  using array_set_replicate[of "[]" a "length b"] array_set_replicate[of a b 0]
  by simp_all

lemma deriveMasterKey_run:
  assumes "extractable kp" and "extractable ke"
  shows "deriveMasterKey P kp ke w =
     (Inr \<lparr>key_raw = hkdf P SHA_256 (key_raw kp @ key_raw ke) []
                       (TextEncoder_encode P MASTER_KEY_INFO) 256,
           algorithm = AES_GCM, extractable = False, usages = [Encrypt, Decrypt]\<rparr>,
      w\<lparr>trace := trace w @
         [Console INFO [Lit ''Deriving Master Key (KM) using HKDF.''],
          Console INFO [Lit ''Master Key derivation complete.'']]\<rparr>)"
  using assms
  by (simp add: deriveMasterKey_def securityLog_def exportKey_raw_def ikm_assembly
      importKey_raw_def deriveKey_HKDF_def AES_KEY_LENGTH_def Let_def)

lemma generateDataEncryptionKey_run:
  "generateDataEncryptionKey w =
     (Inr \<lparr>key_raw = draw w 0 32, algorithm = AES_GCM, extractable = True,
           usages = [Encrypt, Decrypt]\<rparr>,
      w\<lparr>rng_pos := rng_pos w + 32,
         trace := trace w @ [Console INFO [Lit ''Generating random DEK.'']]\<rparr>)"
  by (simp add: generateDataEncryptionKey_def securityLog_def generateKey_AES_GCM_def
      AES_KEY_LENGTH_def getRandomValues_def io_bind_def draw_def)

lemma wrapDataKey_run:
  assumes "extractable dek" and "algorithm km = AES_GCM" and "Encrypt \<in> set (usages km)"
  shows "wrapDataKey P dek km w =
     (Inr (aes_gcm_encrypt P (key_raw km) (draw w 0 12) (key_raw dek),
           new_Uint8Array (draw w 0 12)),
      w\<lparr>rng_pos := rng_pos w + 12,
         trace := trace w @
         [Console INFO [Lit ''Wrapping DEK using KM (AES-GCM).''],
          Subtle_encrypt km (draw w 0 12) (key_raw dek),
          Console INFO [Lit ''DEK wrapping complete.'']]\<rparr>)"
  using assms
  by (simp add: wrapDataKey_def securityLog_def exportKey_raw_def AES_IV_LENGTH_def
      getRandomValues_def io_bind_def encrypt_AES_GCM_def draw_def)

lemma encryptFileStream_run:
  assumes "algorithm dek = AES_GCM" and "Encrypt \<in> set (usages dek)"
  shows "encryptFileStream P f dek w =
     (Inr (draw w 0 12 @ aes_gcm_encrypt P (key_raw dek) (draw w 0 12) (file_bytes f)),
      w\<lparr>rng_pos := rng_pos w + 12,
         trace := trace w @
         [Console INFO [Lit ''Starting encryption for file: '', Str (file_name f)],
          Console INFO [Lit ''File loaded into memory ('', Num (length (file_bytes f)),
                        Lit '' bytes).''],
          Subtle_encrypt dek (draw w 0 12) (file_bytes f),
          Console INFO [Lit ''File encryption complete.'']]\<rparr>)"
  using assms
  by (simp add: encryptFileStream_def securityLog_def AES_IV_LENGTH_def
      getRandomValues_def io_bind_def encrypt_AES_GCM_def draw_def Let_def)

lemma decrypt_AES_GCM_run:
  "decrypt_AES_GCM P iv key data w =
     (if algorithm key \<noteq> AES_GCM \<or> Decrypt \<notin> set (usages key) then Inl InvalidAccessError
      else if length data < 16 then Inl OperationError
      else case aes_gcm_decrypt P (key_raw key) iv data of
             None \<Rightarrow> Inl OperationError | Some plaintext \<Rightarrow> Inr plaintext,
      w\<lparr>trace := trace w @ [Subtle_decrypt key iv data]\<rparr>)"
  by (simp add: decrypt_AES_GCM_def split: option.splits)

lemma unwrapDataKey_ok:
  assumes "algorithm km = AES_GCM" and "Decrypt \<in> set (usages km)"
    and "16 \<le> length wrappedKey"
    and "aes_gcm_decrypt P (key_raw km) iv wrappedKey = Some dekRaw"
    and "length dekRaw = 32"
  shows "unwrapDataKey P wrappedKey iv km w =
     (Inr \<lparr>key_raw = dekRaw, algorithm = AES_GCM, extractable = True,
           usages = [Encrypt, Decrypt]\<rparr>,
      w\<lparr>trace := trace w @
         [Console INFO [Lit ''Attempting to unwrap DEK.''],
          Subtle_decrypt km iv wrappedKey,
          Console INFO [Lit ''DEK unwrapping successful.'']]\<rparr>)"
  using assms
  by (simp add: unwrapDataKey_def securityLog_def io_catch_def io_bind_def
      decrypt_AES_GCM_run importKey_raw_def)

lemma unwrapDataKey_rejects:
  assumes "aes_gcm_decrypt P (key_raw km) iv wrappedKey = None"
  shows "unwrapDataKey P wrappedKey iv km w =
     (Inl (Error ''Authentication failed: Invalid password or receiver email.''),
      w\<lparr>trace := trace w @
         [Console INFO [Lit ''Attempting to unwrap DEK.''],
          Subtle_decrypt km iv wrappedKey,
          Console ERROR [Lit ''DEK unwrapping failed. Invalid password/email combination.'']]\<rparr>)"
  using assms
  by (simp add: unwrapDataKey_def securityLog_def io_catch_def io_bind_def
      decrypt_AES_GCM_run)

lemma unwrapDataKey_trace:
  "trace (snd (unwrapDataKey P wrappedKey iv km w)) =
     trace w @
       [Console INFO [Lit ''Attempting to unwrap DEK.''],
        Subtle_decrypt km iv wrappedKey,
        (case fst (unwrapDataKey P wrappedKey iv km w) of
           Inr dek \<Rightarrow> Console INFO [Lit ''DEK unwrapping successful.'']
         | Inl e \<Rightarrow>
             Console ERROR [Lit ''DEK unwrapping failed. Invalid password/email combination.''])]"
  by (simp add: unwrapDataKey_def securityLog_def io_catch_def io_bind_def
      decrypt_AES_GCM_run importKey_raw_def split: option.splits)

lemma unwrapDataKey_error:
  "fst (unwrapDataKey P wrappedKey iv km w) = Inl e \<Longrightarrow>
     e = Error ''Authentication failed: Invalid password or receiver email.''"
  by (simp add: unwrapDataKey_def securityLog_def io_catch_def io_bind_def
      decrypt_AES_GCM_run importKey_raw_def split: option.splits if_splits)

lemma unwrapDataKey_rng:
  "rng (snd (unwrapDataKey P wrappedKey iv km w)) = rng w"
  "rng_pos (snd (unwrapDataKey P wrappedKey iv km w)) = rng_pos w"
  by (simp_all add: unwrapDataKey_def securityLog_def io_catch_def io_bind_def
      decrypt_AES_GCM_run importKey_raw_def split: option.splits)

lemma decryptFileStream_short:
  "length encryptedBlob < 28 \<Longrightarrow>
   decryptFileStream P encryptedBlob dek w =
     (Inl (Error ''Encrypted data too short.''),
      w\<lparr>trace := trace w @
         [Console INFO [Lit ''Starting decryption and integrity verification.'']]\<rparr>)"
  by (simp add: decryptFileStream_def securityLog_def AES_IV_LENGTH_def AES_TAG_LENGTH_def)

lemma decryptFileStream_long:
  "28 \<le> length encryptedBlob \<Longrightarrow>
   decryptFileStream P encryptedBlob dek w =
     (case fst (decrypt_AES_GCM P (take 12 encryptedBlob) dek (drop 12 encryptedBlob) w) of
        Inr plaintext \<Rightarrow>
          (Inr plaintext,
           w\<lparr>trace := trace w @
             [Console INFO [Lit ''Starting decryption and integrity verification.''],
              Subtle_decrypt dek (take 12 encryptedBlob) (drop 12 encryptedBlob),
              Console INFO
                [Lit ''Decryption successful. Integrity verified (Authentication Tag passed).'']]\<rparr>)
      | Inl e \<Rightarrow>
          (Inl (Error ''Integrity check failed: Data may be corrupted or key is incorrect.''),
           w\<lparr>trace := trace w @
             [Console INFO [Lit ''Starting decryption and integrity verification.''],
              Subtle_decrypt dek (take 12 encryptedBlob) (drop 12 encryptedBlob),
              Console ERROR
                [Lit ''Decryption failed. Authentication Tag verification failed.'']]\<rparr>))"
  by (simp add: decryptFileStream_def securityLog_def AES_IV_LENGTH_def AES_TAG_LENGTH_def
      slice_def slice_from_def io_catch_def io_bind_def decrypt_AES_GCM_run Let_def
      split: option.splits)

lemma pack_then_parse:
  assumes ok: "header_codec_ok P fileName (buffer sp) (buffer se) (buffer wiv) wdek"
    and lens: "length (buffer sp) = 16" "length (buffer se) = 16" "length (buffer wiv) = 12"
    and mb: "mb = metadataBuffer P (metadata_of P fileName (buffer sp) (buffer se) (buffer wiv) wdek)"
  shows "packageMetadata P fileName sp se wiv wdek w =
           (Inr (new_Uint8Array (MAGIC_HEADER @ uint32_le (length mb) @ mb)),
            w\<lparr>trace := trace w @
              [Console INFO [Lit ''Packaging metadata header.''],
               Console INFO [Lit ''Metadata packaged. Total header size: '',
                             Num (8 + length mb), Lit '' bytes.'']]\<rparr>)"
    and "parseMetadata P \<lparr>file_name = name, file_bytes = MAGIC_HEADER @ uint32_le (length mb) @ mb @ payload\<rparr> w2 =
           (Inr \<lparr>pm_fileName = Some (JString fileName), pm_sp = buffer sp, pm_se = buffer se,
                 pm_wiv = buffer wiv, pm_wdek = wdek, pm_headerLength = 8 + length mb\<rparr>,
            w2\<lparr>trace := trace w2 @
              [Console INFO [Lit ''Starting metadata parsing.''],
               Console INFO [Lit ''Metadata parsed successfully. Header length: '',
                             Num (8 + length mb), Lit ''.'']]\<rparr>)"
proof -
  let ?m = "metadata_of P fileName (buffer sp) (buffer se) (buffer wiv) wdek"
  from ok have b: "base64_roundtrips P (buffer sp)" "base64_roundtrips P (buffer se)"
      "base64_roundtrips P (buffer wiv)" "base64_roundtrips P wdek"
    and j: "json_roundtrips P ?m" and l: "length mb < 2 ^ 32"
    by (simp_all add: header_codec_ok_def mb)
  have m: "?m = \<lparr>md_fileName = fileName, md_sp = base64_of P (buffer sp),
                  md_se = base64_of P (buffer se), md_wiv = base64_of P (buffer wiv),
                  md_wdek = base64_of P wdek\<rparr>"
    by (simp add: metadata_of_def)
  show "packageMetadata P fileName sp se wiv wdek w =
           (Inr (new_Uint8Array (MAGIC_HEADER @ uint32_le (length mb) @ mb)),
            w\<lparr>trace := trace w @
              [Console INFO [Lit ''Packaging metadata header.''],
               Console INFO [Lit ''Metadata packaged. Total header size: '',
                             Num (8 + length mb), Lit '' bytes.'']]\<rparr>)"
    by (rule packageMetadata_run[OF b[THEN base64_roundtrips_btoa]]) (simp add: mb m)
  from j obtain ms where
    p: "JSON_parse P (TextDecoder_decode P mb) = Some (JObject ms)"
    and f: "map_of ms (js ''fileName'') = Some (JString fileName)"
      "map_of ms (js ''sp'') = Some (JString (base64_of P (buffer sp)))"
      "map_of ms (js ''se'') = Some (JString (base64_of P (buffer se)))"
      "map_of ms (js ''wiv'') = Some (JString (base64_of P (buffer wiv)))"
      "map_of ms (js ''wdek'') = Some (JString (base64_of P wdek))"
    by (auto simp: json_roundtrips_def mb metadataBuffer_def metadata_of_def
        split: option.splits json.splits)
  show "parseMetadata P \<lparr>file_name = name, file_bytes = MAGIC_HEADER @ uint32_le (length mb) @ mb @ payload\<rparr> w2 =
           (Inr \<lparr>pm_fileName = Some (JString fileName), pm_sp = buffer sp, pm_se = buffer se,
                 pm_wiv = buffer wiv, pm_wdek = wdek, pm_headerLength = 8 + length mb\<rparr>,
            w2\<lparr>trace := trace w2 @
              [Console INFO [Lit ''Starting metadata parsing.''],
               Console INFO [Lit ''Metadata parsed successfully. Header length: '',
                             Num (8 + length mb), Lit ''.'']]\<rparr>)"
    by (rule parseMetadata_run[OF _ l p f b[THEN base64_roundtrips_atob] lens]) simp
qed

lemma ref_platform_fields:
  "TextEncoder_encode ref_platform = ref_encode"
  "TextDecoder_decode ref_platform = ref_decode"
  "btoa ref_platform = ref_btoa"
  "atob ref_platform = ref_atob"
  "JSON_stringify ref_platform = ref_stringify"
  "JSON_parse ref_platform = ref_parse"
  "pbkdf2 ref_platform = ref_pbkdf2"
  "hkdf ref_platform = ref_hkdf"
  "aes_gcm_encrypt ref_platform = ref_encrypt"
  "aes_gcm_decrypt ref_platform = ref_decrypt"
  by (simp_all add: ref_platform_def)

lemmas ref_defs =
  ref_platform_fields ref_encode_def ref_decode_def ref_btoa_def ref_atob_def strip_padding_def
  b64_char_def b64_value_def json_quote_def ref_stringify_def ref_parse_def js_def
  base64_roundtrips_def base64_encodes_def base64_of_def metadata_of_def json_roundtrips_def
  header_codec_ok_def header_encodable_def metadataBuffer_def Let_def

lemma at_all_eq:
  assumes "at m 0 = at MAGIC_HEADER 0" and "at m 1 = at MAGIC_HEADER 1"
    and "at m 2 = at MAGIC_HEADER 2" and "at m 3 = at MAGIC_HEADER 3"
    and "length m \<le> 4"
  shows "m = MAGIC_HEADER"
proof (rule nth_equalityI)
  show l: "length m = length MAGIC_HEADER"
    using assms(4,5) by (simp add: at_def split: if_splits)
  fix i assume "i < length m"
  then have "i = 0 \<or> i = 1 \<or> i = 2 \<or> i = 3" using l by auto
  then show "m ! i = MAGIC_HEADER ! i"
    using assms(1-4) l by (auto simp: at_def split: if_splits)
qed

lemma parse_bad_magic:
  assumes "take 4 (file_bytes f) \<noteq> MAGIC_HEADER"
  shows "fst (parseMetadata P f w) = Inl (Error ''Invalid file format: Magic header mismatch.'')"
proof -
  define m where "m = slice (slice (file_bytes f) 0 8) 0 4"
  have m4: "m = take 4 (file_bytes f)" by (simp add: m_def slice_def)
  have "at m 0 \<noteq> at MAGIC_HEADER 0 \<or> at m 1 \<noteq> at MAGIC_HEADER 1 \<or>
        at m 2 \<noteq> at MAGIC_HEADER 2 \<or> at m 3 \<noteq> at MAGIC_HEADER 3"
    using at_all_eq[of m] assms by (auto simp: m4)
  then show ?thesis
    unfolding parseMetadata_def Let_def m_def[symmetric]
    by (simp add: securityLog_def)
qed

lemma parse_bad_json:
  assumes "take 4 (file_bytes f) = MAGIC_HEADER"
    and "getUint32 (take 8 (file_bytes f)) 4 = Inr n"
    and "JSON_parse P (TextDecoder_decode P (slice (file_bytes f) 8 (8 + n))) = None"
  shows "fst (parseMetadata P f w) =
           Inl (Error ''Invalid file format: Metadata JSON parsing failed.'')"
proof -
  have m: "slice (slice (file_bytes f) 0 8) 0 4 = MAGIC_HEADER"
    using assms(1) by (simp add: slice_def)
  have b: "slice (file_bytes f) 0 8 = take 8 (file_bytes f)"
    by (simp add: slice_def)
  show ?thesis
    unfolding parseMetadata_def Let_def m
    by (simp add: b assms(2,3) securityLog_def)
qed

lemma provider_error_1:
  "fst (decryptFile P \<lparr>file_name = name, file_bytes = [0x44, 0x59, 0x41, 0x44, 1, 0]\<rparr>
          password email w) = Inl RangeError"
  by (simp add: decryptFile_def io_bind_def parseMetadata_def securityLog_def slice_def Let_def
      at_def MAGIC_HEADER_def getUint32_def)

lemma provider_error_2:
  "fst (handleDecrypt ref_platform (Some bad_b64_file) ref_password ref_email ref_world)
     = Decryption_Failed InvalidCharacterError"
  by (simp add: handleDecrypt_def decryptFile_def io_bind_def parseMetadata_def securityLog_def
      slice_def Let_def at_def MAGIC_HEADER_def getUint32_def bad_b64_file_def uint32_le_def
      ref_password_def ref_email_def MIN_PASSWORD_LENGTH_def ref_defs ref_world_def
      base64ToArrayBuffer_def ToString_value_def)

lemmas run_defs = run_sp_def run_se_def run_dek_def run_wiv_def run_iv_def run_km_def
  run_wdek_def run_metadata_def run_payload_def

lemma header_encodable_btoa:
  assumes "header_encodable P fileName sp se wiv wdek"
  shows "btoa P (fromCharCodes sp) = Inr (base64_of P sp)"
    and "btoa P (fromCharCodes se) = Inr (base64_of P se)"
    and "btoa P (fromCharCodes wiv) = Inr (base64_of P wiv)"
    and "btoa P (fromCharCodes wdek) = Inr (base64_of P wdek)"
  using assms by (simp_all add: header_encodable_def base64_encodes_btoa)

lemma header_codec_ok_encodable:
  "header_codec_ok P fileName sp se wiv wdek \<Longrightarrow> header_encodable P fileName sp se wiv wdek"
  by (simp add: header_codec_ok_def header_encodable_def base64_roundtrips_def
      base64_encodes_def split: sum.splits)

lemma packageMetadata_fresh:
  assumes "header_encodable P fileName sp se wiv wdek"
  shows "packageMetadata P fileName (new_Uint8Array sp) (new_Uint8Array se) (new_Uint8Array wiv)
           wdek w =
     (Inr (new_Uint8Array
             (MAGIC_HEADER
              @ uint32_le (length (metadataBuffer P (metadata_of P fileName sp se wiv wdek)))
              @ metadataBuffer P (metadata_of P fileName sp se wiv wdek))),
      w\<lparr>trace := trace w @
         [Console INFO [Lit ''Packaging metadata header.''],
          Console INFO [Lit ''Metadata packaged. Total header size: '',
             Num (8 + length (metadataBuffer P (metadata_of P fileName sp se wiv wdek))),
             Lit '' bytes.'']]\<rparr>)"
  by (rule packageMetadata_run)
    (simp_all add: header_encodable_btoa[OF assms] metadata_of_def)

lemma encryptFile_run:
  assumes "run_encodable P f password email w"
  shows "fst (encryptFile P f password email w) =
     Inr (MAGIC_HEADER @ uint32_le (length (metadataBuffer P (run_metadata P f password email w)))
            @ metadataBuffer P (run_metadata P f password email w) @ run_payload P f w)"
    and "rng_pos (snd (encryptFile P f password email w)) = rng_pos w + 88"
    and "rng (snd (encryptFile P f password email w)) = rng w"
proof -
  define kp where "kp = \<lparr>key_raw = stretched_key P password (run_sp w), algorithm = AES_GCM,
    extractable = True, usages = [Encrypt, Decrypt, WrapKey, UnwrapKey]\<rparr>"
  define ke where "ke = \<lparr>key_raw = stretched_key P email (run_se w), algorithm = AES_GCM,
    extractable = True, usages = [Encrypt, Decrypt, WrapKey, UnwrapKey]\<rparr>"
  define km where "km = \<lparr>key_raw = run_km P password email w, algorithm = AES_GCM,
    extractable = False, usages = [Encrypt, Decrypt]\<rparr>"
  define dek where "dek = \<lparr>key_raw = run_dek w, algorithm = AES_GCM,
    extractable = True, usages = [Encrypt, Decrypt]\<rparr>"
  define mb where "mb = metadataBuffer P (run_metadata P f password email w)"
  obtain w1 where s1: "generateSalt SALT_LENGTH w = (Inr (new_Uint8Array (run_sp w)), w1)"
    and r1: "rng w1 = rng w" "rng_pos w1 = rng_pos w + 16"
    by (simp add: generateSalt_def SALT_LENGTH_def getRandomValues_run run_sp_def)
  obtain w2 where s2: "generateSalt SALT_LENGTH w1 = (Inr (new_Uint8Array (run_se w)), w2)"
    and r2: "rng w2 = rng w" "rng_pos w2 = rng_pos w + 32"
    using r1 by (simp add: generateSalt_def SALT_LENGTH_def getRandomValues_run run_se_def draw_def)
  obtain w3 where s3: "deriveKeyPBKDF2 P password (run_sp w) w2 = (Inr kp, w3)"
    and r3: "rng w3 = rng w" "rng_pos w3 = rng_pos w + 32"
    using r2 by (simp add: deriveKeyPBKDF2_run kp_def)
  obtain w4 where s4: "deriveKeyPBKDF2 P email (run_se w) w3 = (Inr ke, w4)"
    and r4: "rng w4 = rng w" "rng_pos w4 = rng_pos w + 32"
    using r3 by (simp add: deriveKeyPBKDF2_run ke_def)
  obtain w5 where s5: "deriveMasterKey P kp ke w4 = (Inr km, w5)"
    and r5: "rng w5 = rng w" "rng_pos w5 = rng_pos w + 32"
    using r4
    by (simp add: deriveMasterKey_run kp_def ke_def km_def run_km_def master_key_def)
  obtain w6 where s6: "generateDataEncryptionKey w5 = (Inr dek, w6)"
    and r6: "rng w6 = rng w" "rng_pos w6 = rng_pos w + 64"
    using r5 by (simp add: generateDataEncryptionKey_run dek_def run_dek_def draw_def)
  obtain w7 where s7: "wrapDataKey P dek km w6 =
      (Inr (run_wdek P password email w, new_Uint8Array (run_wiv w)), w7)"
    and r7: "rng w7 = rng w" "rng_pos w7 = rng_pos w + 76"
    using r6
    by (simp add: wrapDataKey_run dek_def km_def run_wdek_def run_wiv_def draw_def)
  obtain w8 where s8: "encryptFileStream P f dek w7 = (Inr (run_payload P f w), w8)"
    and r8: "rng w8 = rng w" "rng_pos w8 = rng_pos w + 88"
    using r7
    by (simp add: encryptFileStream_run dek_def run_payload_def run_iv_def draw_def)
  obtain w9 where s9: "packageMetadata P (file_name f) (new_Uint8Array (run_sp w))
      (new_Uint8Array (run_se w)) (new_Uint8Array (run_wiv w)) (run_wdek P password email w) w8 =
     (Inr (new_Uint8Array (MAGIC_HEADER @ uint32_le (length mb) @ mb)), w9)"
    and r9: "rng w9 = rng w" "rng_pos w9 = rng_pos w + 88"
    using r8 packageMetadata_fresh[OF assms[unfolded run_encodable_def], of w8]
    by (simp add: mb_def run_metadata_def)
  have "encryptFile P f password email w =
          (Inr (MAGIC_HEADER @ uint32_le (length mb) @ mb @ run_payload P f w), w9)"
    by (simp add: encryptFile_def io_bind_def s1 s2 s3 s4 s5 s6 s7 s8 s9)
  then show "fst (encryptFile P f password email w) =
     Inr (MAGIC_HEADER @ uint32_le (length (metadataBuffer P (run_metadata P f password email w)))
            @ metadataBuffer P (run_metadata P f password email w) @ run_payload P f w)"
    and "rng_pos (snd (encryptFile P f password email w)) = rng_pos w + 88"
    and "rng (snd (encryptFile P f password email w)) = rng w"
    using r9 by (simp_all add: mb_def)
qed

lemma decryptFile_parse_fails:
  "parseMetadata P f w = (Inl e, w1) \<Longrightarrow> decryptFile P f password email w = (Inl e, w1)"
  by (simp add: decryptFile_def io_bind_def)

lemma decryptFile_after_parse:
  assumes "parseMetadata P f w = (Inr md, w1)"
  shows "decryptFile P f password email w =
     io_bind (unwrapDataKey P (pm_wdek md) (pm_wiv md)
                (master_cryptokey P password (pm_sp md) email (pm_se md))) (\<lambda>dek.
     io_bind (decryptFileStream P (slice_from (file_bytes f) (pm_headerLength md)) dek)
       (\<lambda>decryptedBlob. io_return (decryptedBlob, pm_fileName md)))
       (w1\<lparr>trace := trace w1 @ derivation_log\<rparr>)"
  by (simp add: decryptFile_def io_bind_def[of "parseMetadata P f"]
      io_bind_def[of "deriveKeyPBKDF2 P password (pm_sp md)"]
      io_bind_def[of "deriveKeyPBKDF2 P email (pm_se md)"]
      io_bind_def[of "deriveMasterKey P _ _"] assms Let_def
      deriveKeyPBKDF2_run deriveMasterKey_run master_cryptokey_def master_key_def
      derivation_log_def)

lemma run_payload_split:
  "take 12 (run_payload P f w) = run_iv w"
  "drop 12 (run_payload P f w) = aes_gcm_encrypt P (run_dek w) (run_iv w) (file_bytes f)"
  "length (run_payload P f w) = 12 + length (aes_gcm_encrypt P (run_dek w) (run_iv w) (file_bytes f))"
  by (simp_all add: run_payload_def run_iv_def)

lemma parse_envelope:
  assumes "header_codec_ok P fileName sp se wiv wdek"
    and "length sp = 16" and "length se = 16" and "length wiv = 12"
  shows "parseMetadata P
           \<lparr>file_name = name,
            file_bytes = MAGIC_HEADER
              @ uint32_le (length (metadataBuffer P (metadata_of P fileName sp se wiv wdek)))
              @ metadataBuffer P (metadata_of P fileName sp se wiv wdek) @ payload\<rparr> w =
           (Inr \<lparr>pm_fileName = Some (JString fileName), pm_sp = sp, pm_se = se,
                 pm_wiv = wiv, pm_wdek = wdek,
                 pm_headerLength =
                   8 + length (metadataBuffer P (metadata_of P fileName sp se wiv wdek))\<rparr>,
            w\<lparr>trace := trace w @
              [Console INFO [Lit ''Starting metadata parsing.''],
               Console INFO [Lit ''Metadata parsed successfully. Header length: '',
                 Num (8 + length (metadataBuffer P (metadata_of P fileName sp se wiv wdek))),
                 Lit ''.'']]\<rparr>)"
  using pack_then_parse(2)[of P fileName "new_Uint8Array sp" "new_Uint8Array se"
      "new_Uint8Array wiv" wdek _ name payload w] assms
  by simp

lemma pipeline_roundtrip:
  assumes "run_ok P f password email w"
  shows "\<exists>envelope.
           fst (encryptFile P f password email w) = Inr envelope \<and>
           (\<forall>name w'.
              fst (decryptFile P \<lparr>file_name = name, file_bytes = envelope\<rparr> password email w')
              = Inr (file_bytes f, Some (JString (file_name f))))"
proof -
  let ?mb = "metadataBuffer P (run_metadata P f password email w)"
  let ?env = "MAGIC_HEADER @ uint32_le (length ?mb) @ ?mb @ run_payload P f w"
  let ?km = "master_cryptokey P password (run_sp w) email (run_se w)"
  let ?dek = "\<lparr>key_raw = run_dek w, algorithm = AES_GCM, extractable = True,
                 usages = [Encrypt, Decrypt]\<rparr>"
  from assms have codec: "header_codec_ok P (file_name f) (run_sp w) (run_se w) (run_wiv w)
      (run_wdek P password email w)"
    and wrap: "aead_roundtrips P (run_km P password email w) (run_wiv w) (run_dek w)"
    and pay: "aead_roundtrips P (run_dek w) (run_iv w) (file_bytes f)"
    by (simp_all add: run_ok_def run_codec_ok_def)
  have enc: "fst (encryptFile P f password email w) = Inr ?env"
    by (rule encryptFile_run(1))
      (simp add: run_encodable_def header_codec_ok_encodable[OF codec])
  have dec: "fst (decryptFile P \<lparr>file_name = name, file_bytes = ?env\<rparr> password email w')
              = Inr (file_bytes f, Some (JString (file_name f)))" for name w'
  proof -
    have l: "length (run_sp w) = 16" "length (run_se w) = 16" "length (run_wiv w) = 12"
      by (simp_all add: run_sp_def run_se_def run_wiv_def)
    note p = parse_envelope[OF codec l, of name "run_payload P f w" w', folded run_metadata_def]
    have u: "unwrapDataKey P (run_wdek P password email w) (run_wiv w) ?km w'' =
        (Inr ?dek,
         w''\<lparr>trace := trace w'' @
           [Console INFO [Lit ''Attempting to unwrap DEK.''],
            Subtle_decrypt ?km (run_wiv w) (run_wdek P password email w),
            Console INFO [Lit ''DEK unwrapping successful.'']]\<rparr>)" for w''
      using wrap
      by (intro unwrapDataKey_ok)
        (simp_all add: master_cryptokey_def aead_roundtrips_def run_wdek_def run_km_def
          run_dek_def)
    have d: "decryptFileStream P (run_payload P f w) ?dek w'' =
        (Inr (file_bytes f),
         w''\<lparr>trace := trace w'' @
           [Console INFO [Lit ''Starting decryption and integrity verification.''],
            Subtle_decrypt ?dek (run_iv w)
              (aes_gcm_encrypt P (run_dek w) (run_iv w) (file_bytes f)),
            Console INFO
              [Lit ''Decryption successful. Integrity verified (Authentication Tag passed).'']]\<rparr>)"
      for w''
      using pay
      by (simp add: decryptFileStream_long run_payload_split decrypt_AES_GCM_run
          aead_roundtrips_def)
    show ?thesis
      by (simp add: decryptFile_after_parse[OF p] io_bind_def u d slice_from_def)
  qed
  show ?thesis using enc dec by blast
qed

lemma stretch_numeral:
  "stretch (numeral k) seed = of_nat seed # stretch (pred_numeral k) ((2 * seed + 1) mod 256)"
  by (simp only: numeral_eq_Suc[of k] stretch.simps)

lemma upt_eval:
  "[0..<numeral n] = 0 # [Suc 0..<numeral n]"
  "[Suc 0..<numeral n] = (if Suc 0 < numeral n then Suc 0 # [2..<numeral n] else [])"
proof -
  show "[0..<numeral n] = 0 # [Suc 0..<numeral n]"
    by (rule upt_conv_Cons) simp
  show "[Suc 0..<numeral n] = (if Suc 0 < numeral n then Suc 0 # [2..<numeral n] else [])"
    unfolding numeral_2_eq_2 by (rule upt_rec)
qed

lemma replicate_numeral_eval: "replicate (numeral k) x = x # replicate (pred_numeral k) x"
  by (simp only: numeral_eq_Suc[of k] replicate.simps)

lemma ref_draws:
  "run_sp ref_world = [11, 48, 85, 122, 159, 196, 233, 14, 51, 88, 125, 162, 199, 236, 17, 54]"
  "run_se ref_world = [91, 128, 165, 202, 239, 20, 57, 94, 131, 168, 205, 242, 23, 60, 97, 134]"
  "run_dek ref_world = [171, 208, 245, 26, 63, 100, 137, 174, 211, 248, 29, 66, 103, 140, 177,
     214, 251, 32, 69, 106, 143, 180, 217, 254, 35, 72, 109, 146, 183, 220, 1, 38]"
  "run_wiv ref_world = [75, 112, 149, 186, 223, 4, 41, 78, 115, 152, 189, 226]"
  "run_iv ref_world = [7, 44, 81, 118, 155, 192, 229, 10, 47, 84, 121, 158]"
  by (simp_all add: run_defs draw_def ref_world_def upt_eval)

lemmas ref_crypto_defs =
  ref_platform_fields ref_pbkdf2_def ref_hkdf_def mix_def ref_encode_def js_def stretch_numeral
  MASTER_KEY_INFO_def master_key_def stretched_key_def
  ref_encrypt_def ref_decrypt_def ref_pad1_def ref_pad2_def ref_tag_def Let_def
  replicate_numeral_eval

lemma ref_km:
  "run_km ref_platform ref_password ref_email ref_world =
     [147, 39, 79, 159, 63, 127, 255, 255, 255, 255, 255, 255, 255, 255, 255, 255,
      255, 255, 255, 255, 255, 255, 255, 255, 255, 255, 255, 255, 255, 255, 255, 255]"
  by (simp add: run_km_def ref_password_def ref_email_def ref_crypto_defs ref_draws)

lemma ref_wdek:
  "run_wdek ref_platform ref_password ref_email ref_world =
     [225, 245, 9, 29, 49, 69, 89, 109, 129, 149, 169, 189, 209, 229, 249, 13,
      33, 53, 73, 93, 113, 133, 153, 173, 193, 213, 233, 253, 17, 37, 57, 77,
      5, 5, 5, 5, 5, 5, 5, 5, 5, 5, 5, 5, 5, 5, 5, 5]"
  by (simp add: run_wdek_def ref_km ref_draws ref_crypto_defs)

lemma ref_aead:
  "aead_roundtrips ref_platform (run_km ref_platform ref_password ref_email ref_world)
     (run_wiv ref_world) (run_dek ref_world)"
  "aead_roundtrips ref_platform (run_dek ref_world) (run_iv ref_world) (file_bytes ref_file)"
  by (simp_all add: aead_roundtrips_def ref_km ref_draws ref_file_def ref_crypto_defs)

lemma ref_codec:
  "run_codec_ok ref_platform ref_file ref_password ref_email ref_world"
  by (simp add: run_codec_ok_def ref_wdek ref_draws ref_file_def ref_defs)

lemma ref_run_ok: "run_ok ref_platform ref_file ref_password ref_email ref_world"
  by (simp add: run_ok_def ref_aead ref_codec)

section \<open>Headers written and read back\<close>




section \<open>Runs of the pipeline\<close>

lemma run_world_trace [simp]:
  "run_sp (w\<lparr>trace := t\<rparr>) = run_sp w"
  "run_se (w\<lparr>trace := t\<rparr>) = run_se w"
  "run_dek (w\<lparr>trace := t\<rparr>) = run_dek w"
  "run_wiv (w\<lparr>trace := t\<rparr>) = run_wiv w"
  "run_iv (w\<lparr>trace := t\<rparr>) = run_iv w"
  "run_km P password email (w\<lparr>trace := t\<rparr>) = run_km P password email w"
  "run_wdek P password email (w\<lparr>trace := t\<rparr>) = run_wdek P password email w"
  "run_payload P f (w\<lparr>trace := t\<rparr>) = run_payload P f w"
  "run_metadata P f password email (w\<lparr>trace := t\<rparr>) = run_metadata P f password email w"
  by (simp_all add: run_defs)

lemma run_ok_trace [simp]:
  "run_encodable P f password email (w\<lparr>trace := t\<rparr>) = run_encodable P f password email w"
  "run_codec_ok P f password email (w\<lparr>trace := t\<rparr>) = run_codec_ok P f password email w"
  "run_ok P f password email (w\<lparr>trace := t\<rparr>) = run_ok P f password email w"
  by (simp_all add: run_encodable_def run_codec_ok_def run_ok_def)

lemma run_ok_encodable:
  "run_ok P f password email w \<Longrightarrow> run_encodable P f password email w"
  "run_codec_ok P f password email w \<Longrightarrow> run_encodable P f password email w"
  by (simp_all add: run_ok_def run_codec_ok_def run_encodable_def header_codec_ok_encodable)

lemma envelope_layout_eq:
  "envelope_layout P fileName sp se wiv wdek payload =
     MAGIC_HEADER @ uint32_le (length (metadataBuffer P (metadata_of P fileName sp se wiv wdek)))
       @ metadataBuffer P (metadata_of P fileName sp se wiv wdek) @ payload"
  by (simp add: envelope_layout_def MAGIC_HEADER_def)

lemma encryptFile_layout:
  assumes "run_encodable P f password email w"
  shows "fst (encryptFile P f password email w) =
     Inr (envelope_layout P (file_name f) (run_sp w) (run_se w) (run_wiv w)
            (run_wdek P password email w) (run_payload P f w))"
  using encryptFile_run(1)[OF assms] by (simp add: envelope_layout_eq run_metadata_def)

lemma ref_encodable: "run_encodable ref_platform ref_file ref_password ref_email ref_world"
  by (rule run_ok_encodable(2)[OF ref_codec])

lemma ref_b64:
  "base64_of ref_platform (run_sp ref_world) = js ''CzBVep/E6Q4zWH2ix+wRNg==''"
  "base64_of ref_platform (run_se ref_world) = js ''W4Clyu8UOV6DqM3yFzxhhg==''"
  "base64_of ref_platform (run_wiv ref_world) = js ''S3CVut8EKU5zmL3i''"
  "base64_of ref_platform (run_wdek ref_platform ref_password ref_email ref_world)
     = js ''4fUJHTFFWW2Blam90eX5DSE1SV1xhZmtwdXp/RElOU0FBQUFBQUFBQUFBQUFBQUF''"
  by (simp_all add: ref_wdek ref_draws ref_defs)

lemma ref_payload:
  "run_payload ref_platform ref_file ref_world =
     [7, 44, 81, 118, 155, 192, 229, 10, 47, 84, 121, 158, 162, 58, 220, 119, 21,
      25, 25, 25, 25, 25, 25, 25, 25, 25, 25, 25, 25, 25, 25, 25, 25]"
  by (simp add: run_payload_def ref_draws ref_file_def ref_crypto_defs)

lemma ref_metadata:
  "metadata_of ref_platform (file_name ref_file) (run_sp ref_world) (run_se ref_world)
     (run_wiv ref_world) (run_wdek ref_platform ref_password ref_email ref_world) =
   \<lparr>md_fileName = js ''a.txt'', md_sp = js ''CzBVep/E6Q4zWH2ix+wRNg=='',
    md_se = js ''W4Clyu8UOV6DqM3yFzxhhg=='', md_wiv = js ''S3CVut8EKU5zmL3i'',
    md_wdek = js ''4fUJHTFFWW2Blam90eX5DSE1SV1xhZmtwdXp/RElOU0FBQUFBQUFBQUFBQUFBQUF''\<rparr>"
  unfolding metadata_of_def ref_b64 by (simp add: ref_file_def)

lemma ref_mb_length:
  "length (metadataBuffer ref_platform
     \<lparr>md_fileName = js ''a.txt'', md_sp = js ''CzBVep/E6Q4zWH2ix+wRNg=='',
      md_se = js ''W4Clyu8UOV6DqM3yFzxhhg=='', md_wiv = js ''S3CVut8EKU5zmL3i'',
      md_wdek = js ''4fUJHTFFWW2Blam90eX5DSE1SV1xhZmtwdXp/RElOU0FBQUFBQUFBQUFBQUFBQUF''\<rparr>)
   = 183"
  by (simp add: metadataBuffer_def ref_platform_fields ref_stringify_def ref_encode_def
      json_quote_def js_def)

lemma ref_envelope_eq:
  "ref_envelope =
     [0x44, 0x59, 0x41, 0x44, 183, 0, 0, 0] @
     metadataBuffer ref_platform
       \<lparr>md_fileName = js ''a.txt'', md_sp = js ''CzBVep/E6Q4zWH2ix+wRNg=='',
        md_se = js ''W4Clyu8UOV6DqM3yFzxhhg=='', md_wiv = js ''S3CVut8EKU5zmL3i'',
        md_wdek = js ''4fUJHTFFWW2Blam90eX5DSE1SV1xhZmtwdXp/RElOU0FBQUFBQUFBQUFBQUFBQUF''\<rparr> @
     [7, 44, 81, 118, 155, 192, 229, 10, 47, 84, 121, 158, 162, 58, 220, 119, 21,
      25, 25, 25, 25, 25, 25, 25, 25, 25, 25, 25, 25, 25, 25, 25, 25]"
  unfolding ref_envelope_def envelope_layout_def ref_metadata ref_mb_length ref_payload
  by (simp add: uint32_le_def)

lemma decryptFile_of_envelope:
  assumes "header_codec_ok P fileName sp se wiv wdek"
    and "length sp = 16" and "length se = 16" and "length wiv = 12"
  shows "decryptFile P
           \<lparr>file_name = name,
            file_bytes = envelope_layout P fileName sp se wiv wdek payload\<rparr> password email w =
     io_bind (unwrapDataKey P wdek wiv (master_cryptokey P password sp email se)) (\<lambda>dek.
     io_bind (decryptFileStream P payload dek)
       (\<lambda>decryptedBlob. io_return (decryptedBlob, Some (JString fileName))))
       (w\<lparr>trace := trace w @
            parse_log (8 + length (metadataBuffer P (metadata_of P fileName sp se wiv wdek))) @
            derivation_log\<rparr>)"
proof -
  note p = parse_envelope[OF assms, of name payload w, folded envelope_layout_eq]
  show ?thesis
    by (simp add: decryptFile_after_parse[OF p] parse_log_def)
      (simp add: envelope_layout_eq slice_from_def)
qed

lemma unwrap_run:
  assumes "aead_roundtrips P (run_km P password email w) (run_wiv w) (run_dek w)"
  shows "unwrapDataKey P (run_wdek P password email w) (run_wiv w)
           (master_cryptokey P password (run_sp w) email (run_se w)) w' =
     (Inr (data_cryptokey (run_dek w)),
      w'\<lparr>trace := trace w' @
         [UNWRAP_ATTEMPT,
          Subtle_decrypt (master_cryptokey P password (run_sp w) email (run_se w)) (run_wiv w)
            (run_wdek P password email w),
          UNWRAP_OK]\<rparr>)"
  unfolding data_cryptokey_def UNWRAP_ATTEMPT_def UNWRAP_OK_def
  using assms
  by (intro unwrapDataKey_ok)
    (simp_all add: master_cryptokey_def aead_roundtrips_def run_wdek_def run_km_def run_dek_def)

lemma payload_run:
  assumes "aead_roundtrips P (run_dek w) (run_iv w) (file_bytes f)"
  shows "decryptFileStream P (run_payload P f w) (data_cryptokey (run_dek w)) w' =
     (Inr (file_bytes f),
      w'\<lparr>trace := trace w' @
         [PAYLOAD_START,
          Subtle_decrypt (data_cryptokey (run_dek w)) (run_iv w)
            (aes_gcm_encrypt P (run_dek w) (run_iv w) (file_bytes f)),
          PAYLOAD_OK]\<rparr>)"
  using assms
  by (simp add: decryptFileStream_long run_payload_split decrypt_AES_GCM_run
      aead_roundtrips_def data_cryptokey_def PAYLOAD_START_def PAYLOAD_OK_def)

lemma decryptFile_run:
  assumes "run_ok P f password email w"
  shows "decryptFile P
           \<lparr>file_name = name,
            file_bytes = envelope_layout P (file_name f) (run_sp w) (run_se w) (run_wiv w)
              (run_wdek P password email w) (run_payload P f w)\<rparr> password email w' =
     (Inr (file_bytes f, Some (JString (file_name f))),
      w'\<lparr>trace := trace w' @
         parse_log (8 + length (metadataBuffer P (run_metadata P f password email w))) @
         derivation_log @
         [UNWRAP_ATTEMPT,
          Subtle_decrypt (master_cryptokey P password (run_sp w) email (run_se w)) (run_wiv w)
            (run_wdek P password email w),
          UNWRAP_OK,
          PAYLOAD_START,
          Subtle_decrypt (data_cryptokey (run_dek w)) (run_iv w)
            (aes_gcm_encrypt P (run_dek w) (run_iv w) (file_bytes f)),
          PAYLOAD_OK]\<rparr>)"
proof -
  from assms have codec: "header_codec_ok P (file_name f) (run_sp w) (run_se w) (run_wiv w)
      (run_wdek P password email w)"
    and wrap: "aead_roundtrips P (run_km P password email w) (run_wiv w) (run_dek w)"
    and pay: "aead_roundtrips P (run_dek w) (run_iv w) (file_bytes f)"
    by (simp_all add: run_ok_def run_codec_ok_def)
  have l: "length (run_sp w) = 16" "length (run_se w) = 16" "length (run_wiv w) = 12"
    by (simp_all add: run_sp_def run_se_def run_wiv_def)
  show ?thesis
    by (simp add: decryptFile_of_envelope[OF codec l] io_bind_def unwrap_run[OF wrap]
        payload_run[OF pay] run_metadata_def)
qed

lemma decryptFile_rejected:
  assumes "header_codec_ok P fileName sp se wiv wdek"
    and "length sp = 16" and "length se = 16" and "length wiv = 12"
    and "aes_gcm_decrypt P (master_key P password sp email se) wiv wdek = None"
  shows "decryptFile P
           \<lparr>file_name = name,
            file_bytes = envelope_layout P fileName sp se wiv wdek payload\<rparr> password email w =
     (Inl (Error ''Authentication failed: Invalid password or receiver email.''),
      w\<lparr>trace := trace w @
         parse_log (8 + length (metadataBuffer P (metadata_of P fileName sp se wiv wdek))) @
         derivation_log @
         [UNWRAP_ATTEMPT,
          Subtle_decrypt (master_cryptokey P password sp email se) wiv wdek,
          UNWRAP_FAILED]\<rparr>)"
proof -
  have u: "unwrapDataKey P wdek wiv (master_cryptokey P password sp email se) w' =
     (Inl (Error ''Authentication failed: Invalid password or receiver email.''),
      w'\<lparr>trace := trace w' @
         [UNWRAP_ATTEMPT,
          Subtle_decrypt (master_cryptokey P password sp email se) wiv wdek,
          UNWRAP_FAILED]\<rparr>)" for w'
    unfolding UNWRAP_ATTEMPT_def UNWRAP_FAILED_def
    using assms(5) by (intro unwrapDataKey_rejects) (simp add: master_cryptokey_def)
  show ?thesis
    by (simp add: decryptFile_of_envelope[OF assms(1-4)] io_bind_def u)
qed

section \<open>Encrypting and decrypting a file\<close>

text \<open>
  Claim C1. For every file, password and email, \<^verbatim>\<open>encryptFile\<close> returns an envelope, and
  \<^verbatim>\<open>decryptFile\<close> on a file that holds this envelope, with the same password and email,
  returns the bytes of the file that was encrypted, together with its name. This holds from
  every state of the random source and whatever the name of the envelope file. The platform
  is asked to be lossless on the values of the run: base64 and JSON on the header, AES-GCM on
  the data key and on the file. The length of the password plays no role in the pipeline;
  the handlers check the inputs before they run it.
\<close>

theorem encrypt_decrypt_roundtrip:
  assumes "run_ok P f password receiverEmail w"
  shows "\<exists>envelope.
           fst (encryptFile P f password receiverEmail w) = Inr envelope \<and>
           (\<forall>name w'.
              fst (decryptFile P \<lparr>file_name = name, file_bytes = envelope\<rparr>
                     password receiverEmail w')
              = Inr (file_bytes f, Some (JString (file_name f))))"
proof -
  let ?envelope = "envelope_layout P (file_name f) (run_sp w) (run_se w) (run_wiv w)
     (run_wdek P password receiverEmail w) (run_payload P f w)"
  have "fst (encryptFile P f password receiverEmail w) = Inr ?envelope"
    by (rule encryptFile_layout) (rule run_ok_encodable(1)[OF assms])
  moreover have "fst (decryptFile P \<lparr>file_name = name, file_bytes = ?envelope\<rparr>
                     password receiverEmail w')
              = Inr (file_bytes f, Some (JString (file_name f)))" for name w'
    by (simp add: decryptFile_run[OF assms])
  ultimately show ?thesis
    by blast
qed

theorem encrypt_decrypt_roundtrip_witness:
  "run_ok ref_platform ref_file ref_password ref_email ref_world \<and>
   fst (encryptFile ref_platform ref_file ref_password ref_email ref_world) = Inr ref_envelope \<and>
   fst (decryptFile ref_platform \<lparr>file_name = js ''a.txt.dyadenc'', file_bytes = ref_envelope\<rparr>
          ref_password ref_email ref_world)
     = Inr ([104, 101, 108, 108, 111], Some (JString (js ''a.txt'')))"
proof -
  have e: "fst (encryptFile ref_platform ref_file ref_password ref_email ref_world)
      = Inr ref_envelope"
    using encryptFile_layout[OF ref_encodable] by (simp add: ref_envelope_def)
  from encrypt_decrypt_roundtrip[OF ref_run_ok] e
  have "fst (decryptFile ref_platform
               \<lparr>file_name = js ''a.txt.dyadenc'', file_bytes = ref_envelope\<rparr>
               ref_password ref_email ref_world)
     = Inr (file_bytes ref_file, Some (JString (file_name ref_file)))"
    by auto
  then show ?thesis
    using e ref_run_ok by (simp add: ref_file_def)
qed

section \<open>The bytes of an envelope\<close>

text \<open>
  Claim C3. The blob \<^verbatim>\<open>encryptFile\<close> returns is laid out as the specification draws it.
  Bytes 0 to 3 are the magic \<^verbatim>\<open>DYAD\<close>. Bytes 4 to 7 are the length \<open>N\<close> of the metadata in
  little-endian order, and \<^verbatim>\<open>getUint32(4, true)\<close> reads \<open>N\<close> back. Bytes 8 to \<open>8 + N\<close> are the
  UTF-8 bytes of the JSON text of the object with the members \<^verbatim>\<open>fileName\<close>, \<^verbatim>\<open>sp\<close>, \<^verbatim>\<open>se\<close>,
  \<^verbatim>\<open>wiv\<close> and \<^verbatim>\<open>wdek\<close>: the name of the file and the base64 texts of the two salts, the
  wrapping IV and the wrapped key of the run. The rest is the payload: the 12 bytes of the
  payload IV, then what AES-GCM returns for the file under the data key and this IV, the
  ciphertext with its tag. The platform is asked that \<^verbatim>\<open>btoa\<close> accepts the four byte strings
  and that the JSON is shorter than \<open>2^32\<close> bytes.
\<close>

theorem envelope_bytes:
  assumes "run_encodable P f password receiverEmail w"
  shows
    "fst (encryptFile P f password receiverEmail w) =
       Inr (envelope_layout P (file_name f) (run_sp w) (run_se w) (run_wiv w)
              (run_wdek P password receiverEmail w) (run_payload P f w)) \<and>
     take 4 (envelope_layout P (file_name f) (run_sp w) (run_se w) (run_wiv w)
               (run_wdek P password receiverEmail w) (run_payload P f w))
       = [0x44, 0x59, 0x41, 0x44] \<and>
     getUint32 (envelope_layout P (file_name f) (run_sp w) (run_se w) (run_wiv w)
                  (run_wdek P password receiverEmail w) (run_payload P f w)) 4
       = Inr (length (TextEncoder_encode P (JSON_stringify P
                \<lparr>md_fileName = file_name f, md_sp = base64_of P (run_sp w),
                 md_se = base64_of P (run_se w), md_wiv = base64_of P (run_wiv w),
                 md_wdek = base64_of P (run_wdek P password receiverEmail w)\<rparr>))) \<and>
     slice (envelope_layout P (file_name f) (run_sp w) (run_se w) (run_wiv w)
              (run_wdek P password receiverEmail w) (run_payload P f w)) 8
         (8 + length (TextEncoder_encode P (JSON_stringify P
                \<lparr>md_fileName = file_name f, md_sp = base64_of P (run_sp w),
                 md_se = base64_of P (run_se w), md_wiv = base64_of P (run_wiv w),
                 md_wdek = base64_of P (run_wdek P password receiverEmail w)\<rparr>)))
       = TextEncoder_encode P (JSON_stringify P
                \<lparr>md_fileName = file_name f, md_sp = base64_of P (run_sp w),
                 md_se = base64_of P (run_se w), md_wiv = base64_of P (run_wiv w),
                 md_wdek = base64_of P (run_wdek P password receiverEmail w)\<rparr>) \<and>
     slice_from (envelope_layout P (file_name f) (run_sp w) (run_se w) (run_wiv w)
              (run_wdek P password receiverEmail w) (run_payload P f w))
         (8 + length (TextEncoder_encode P (JSON_stringify P
                \<lparr>md_fileName = file_name f, md_sp = base64_of P (run_sp w),
                 md_se = base64_of P (run_se w), md_wiv = base64_of P (run_wiv w),
                 md_wdek = base64_of P (run_wdek P password receiverEmail w)\<rparr>)))
       = run_iv w @ aes_gcm_encrypt P (run_dek w) (run_iv w) (file_bytes f) \<and>
     length (run_sp w) = 16 \<and> length (run_se w) = 16 \<and> length (run_wiv w) = 12 \<and>
     length (run_iv w) = 12 \<and>
     btoa P (fromCharCodes (run_sp w)) = Inr (base64_of P (run_sp w)) \<and>
     btoa P (fromCharCodes (run_se w)) = Inr (base64_of P (run_se w)) \<and>
     btoa P (fromCharCodes (run_wiv w)) = Inr (base64_of P (run_wiv w)) \<and>
     btoa P (fromCharCodes (run_wdek P password receiverEmail w))
       = Inr (base64_of P (run_wdek P password receiverEmail w))"
proof -
  let ?m = "\<lparr>md_fileName = file_name f, md_sp = base64_of P (run_sp w),
                 md_se = base64_of P (run_se w), md_wiv = base64_of P (run_wiv w),
                 md_wdek = base64_of P (run_wdek P password receiverEmail w)\<rparr>"
  let ?mb = "TextEncoder_encode P (JSON_stringify P ?m)"
  let ?env = "envelope_layout P (file_name f) (run_sp w) (run_se w) (run_wiv w)
              (run_wdek P password receiverEmail w) (run_payload P f w)"
  have e: "?env = MAGIC_HEADER @ uint32_le (length ?mb) @ ?mb @ run_payload P f w"
    by (simp add: envelope_layout_def MAGIC_HEADER_def metadataBuffer_def metadata_of_def)
  from assms have enc: "header_encodable P (file_name f) (run_sp w) (run_se w) (run_wiv w)
      (run_wdek P password receiverEmail w)"
    by (simp add: run_encodable_def)
  then have l: "length ?mb < 2 ^ 32"
    by (simp add: header_encodable_def metadataBuffer_def metadata_of_def)
  have 1: "fst (encryptFile P f password receiverEmail w) = Inr ?env"
    using encryptFile_run(1)[OF assms]
    by (simp add: e run_metadata_def metadataBuffer_def metadata_of_def)
  have 2: "take 4 ?env = [0x44, 0x59, 0x41, 0x44]"
    by (simp add: e MAGIC_HEADER_def)
  have 3: "getUint32 ?env 4 = Inr (length ?mb)"
    using getUint32_uint32_le[OF l, of MAGIC_HEADER "?mb @ run_payload P f w"]
    by (simp add: e)
  have 4: "slice ?env 8 (8 + length ?mb) = ?mb"
    by (rule slice_header(2)[OF e])
  have 5: "slice_from ?env (8 + length ?mb)
      = run_iv w @ aes_gcm_encrypt P (run_dek w) (run_iv w) (file_bytes f)"
    using slice_header(3)[OF e] by (simp add: run_payload_def)
  have 6: "length (run_sp w) = 16" "length (run_se w) = 16" "length (run_wiv w) = 12"
    "length (run_iv w) = 12"
    by (simp_all add: run_defs)
  note 7 = header_encodable_btoa[OF enc]
  show ?thesis
    using 1 2 3 4 5 6 7 by simp
qed

theorem envelope_bytes_witness:
  "run_encodable ref_platform ref_file ref_password ref_email ref_world \<and>
   fst (encryptFile ref_platform ref_file ref_password ref_email ref_world) = Inr ref_envelope \<and>
   take 4 ref_envelope = [0x44, 0x59, 0x41, 0x44] \<and>
   getUint32 ref_envelope 4 = Inr 183 \<and>
   slice ref_envelope 8 (8 + 183) =
     ref_encode (ref_stringify
       \<lparr>md_fileName = js ''a.txt'', md_sp = js ''CzBVep/E6Q4zWH2ix+wRNg=='',
        md_se = js ''W4Clyu8UOV6DqM3yFzxhhg=='', md_wiv = js ''S3CVut8EKU5zmL3i'',
        md_wdek = js ''4fUJHTFFWW2Blam90eX5DSE1SV1xhZmtwdXp/RElOU0FBQUFBQUFBQUFBQUFBQUF''\<rparr>) \<and>
   slice_from ref_envelope (8 + 183) =
     [7, 44, 81, 118, 155, 192, 229, 10, 47, 84, 121, 158, 162, 58, 220, 119, 21,
      25, 25, 25, 25, 25, 25, 25, 25, 25, 25, 25, 25, 25, 25, 25, 25]"
proof -
  have n: "file_name ref_file = js ''a.txt''"
    by (simp add: ref_file_def)
  have p: "run_iv ref_world @
      aes_gcm_encrypt ref_platform (run_dek ref_world) (run_iv ref_world) (file_bytes ref_file)
    = [7, 44, 81, 118, 155, 192, 229, 10, 47, 84, 121, 158, 162, 58, 220, 119, 21,
       25, 25, 25, 25, 25, 25, 25, 25, 25, 25, 25, 25, 25, 25, 25, 25]"
    using ref_payload by (simp only: run_payload_def)
  note l = ref_mb_length[unfolded metadataBuffer_def]
  note t = envelope_bytes[OF ref_encodable, folded ref_envelope_def, unfolded ref_b64 n l p]
  show ?thesis
    using t ref_encodable by (simp add: ref_platform_fields)
qed

section \<open>Files that are no envelope\<close>

text \<open>
  Claim C4: \<^verbatim>\<open>parseMetadata\<close> is to fail with a format error on every input that is not a
  valid header, also on a truncated one. A file without the magic is refused with the
  magic-mismatch error and a file whose metadata does not parse with the JSON error (lemmas
  \<open>parse_bad_magic\<close> and \<open>parse_bad_json\<close>). A file that starts with the magic and
  is shorter than 8 bytes is not: \<^verbatim>\<open>file.slice(0, 8)\<close> holds fewer than 8 bytes, the magic
  compares equal, and \<^verbatim>\<open>view.getUint32(4, true)\<close> throws the \<^verbatim>\<open>RangeError\<close> of the
  \<^verbatim>\<open>DataView\<close>, which no handler turns into an error of the taxonomy.
\<close>

theorem parse_truncated_header:
  assumes "take 4 (file_bytes f) = MAGIC_HEADER" and "length (file_bytes f) < 8"
  shows "fst (parseMetadata P f w) = Inl RangeError \<and> kind_of RangeError = None"
proof -
  have m: "slice (slice (file_bytes f) 0 8) 0 4 = MAGIC_HEADER"
    using assms(1) by (simp add: slice_def)
  have r: "getUint32 (slice (file_bytes f) 0 8) 4 = Inl RangeError"
    using assms(2) by (simp add: getUint32_def slice_def)
  show ?thesis
    unfolding parseMetadata_def Let_def m
    by (simp add: r securityLog_def kind_of_def)
qed

theorem parse_truncated_header_witness:
  "take 4 (file_bytes \<lparr>file_name = js ''a.txt.dyadenc'',
                        file_bytes = [0x44, 0x59, 0x41, 0x44, 1, 0]\<rparr>) = MAGIC_HEADER \<and>
   length (file_bytes \<lparr>file_name = js ''a.txt.dyadenc'',
                        file_bytes = [0x44, 0x59, 0x41, 0x44, 1, 0]\<rparr>) < 8 \<and>
   fst (parseMetadata ref_platform
          \<lparr>file_name = js ''a.txt.dyadenc'', file_bytes = [0x44, 0x59, 0x41, 0x44, 1, 0]\<rparr>
          ref_world) = Inl RangeError \<and>
   kind_of RangeError = None"
  using parse_truncated_header[of "\<lparr>file_name = js ''a.txt.dyadenc'',
      file_bytes = [0x44, 0x59, 0x41, 0x44, 1, 0]\<rparr>" ref_platform ref_world]
  by (simp add: MAGIC_HEADER_def)

section \<open>Errors of the platform\<close>

text \<open>
  Claim C5: every failure of \<^verbatim>\<open>decryptFile\<close> that reaches the caller is to be one of the
  three kinds of the taxonomy. \<^verbatim>\<open>parseMetadata\<close> wraps \<^verbatim>\<open>JSON.parse\<close> in a \<^verbatim>\<open>try\<close> block and
  turns its failure into a format error, but it calls \<^verbatim>\<open>atob\<close> outside of any: for a header
  that is valid JSON and whose \<^verbatim>\<open>sp\<close> is not base64, the error \<^verbatim>\<open>atob\<close> throws is the error
  \<^verbatim>\<open>decryptFile\<close> fails with, unchanged. The \<^verbatim>\<open>InvalidCharacterError\<close> of the browsers
  belongs to no kind.
\<close>

theorem atob_error_escapes:
  assumes "take 4 (file_bytes f) = MAGIC_HEADER"
    and "getUint32 (take 8 (file_bytes f)) 4 = Inr n"
    and "JSON_parse P (TextDecoder_decode P (slice (file_bytes f) 8 (8 + n))) = Some (JObject ms)"
    and "map_of ms (js ''sp'') = Some (JString s)"
    and "atob P s = Inl e"
  shows "fst (decryptFile P f password receiverEmail w) = Inl e"
proof -
  have m: "slice (slice (file_bytes f) 0 8) 0 4 = MAGIC_HEADER"
    using assms(1) by (simp add: slice_def)
  have b: "slice (file_bytes f) 0 8 = take 8 (file_bytes f)"
    by (simp add: slice_def)
  have "fst (parseMetadata P f w) = Inl e"
    unfolding parseMetadata_def Let_def m
    by (simp add: b assms(2-5) securityLog_def base64ToArrayBuffer_def ToString_value_def)
  then have "parseMetadata P f w = (Inl e, snd (parseMetadata P f w))"
    by (simp add: prod_eq_iff)
  then show ?thesis
    by (simp add: decryptFile_parse_fails)
qed

theorem atob_error_escapes_witness:
  "take 4 (file_bytes bad_b64_file) = MAGIC_HEADER \<and>
   getUint32 (take 8 (file_bytes bad_b64_file)) 4 = Inr 68 \<and>
   JSON_parse ref_platform
     (TextDecoder_decode ref_platform (slice (file_bytes bad_b64_file) 8 (8 + 68)))
     = Some (JObject [(js ''fileName'', JString (js ''a.txt'')), (js ''sp'', JString (js ''!'')),
          (js ''se'', JString (js ''AA=='')), (js ''wiv'', JString (js ''AA=='')),
          (js ''wdek'', JString (js ''AA==''))]) \<and>
   map_of [(js ''fileName'', JString (js ''a.txt'')), (js ''sp'', JString (js ''!'')),
          (js ''se'', JString (js ''AA=='')), (js ''wiv'', JString (js ''AA=='')),
          (js ''wdek'', JString (js ''AA==''))] (js ''sp'') = Some (JString (js ''!'')) \<and>
   atob ref_platform (js ''!'') = Inl InvalidCharacterError \<and>
   kind_of InvalidCharacterError = None \<and>
   fst (decryptFile ref_platform bad_b64_file ref_password ref_email ref_world)
     = Inl InvalidCharacterError"
proof -
  have 1: "take 4 (file_bytes bad_b64_file) = MAGIC_HEADER"
    by (simp add: bad_b64_file_def Let_def)
  have 2: "getUint32 (take 8 (file_bytes bad_b64_file)) 4 = Inr 68"
    by (simp add: bad_b64_file_def getUint32_def uint32_le_def MAGIC_HEADER_def ref_defs)
  have 3: "JSON_parse ref_platform
     (TextDecoder_decode ref_platform (slice (file_bytes bad_b64_file) 8 (8 + 68)))
     = Some (JObject [(js ''fileName'', JString (js ''a.txt'')), (js ''sp'', JString (js ''!'')),
          (js ''se'', JString (js ''AA=='')), (js ''wiv'', JString (js ''AA=='')),
          (js ''wdek'', JString (js ''AA==''))])"
    by (simp add: bad_b64_file_def slice_def uint32_le_def MAGIC_HEADER_def ref_defs)
  have 4: "map_of [(js ''fileName'', JString (js ''a.txt'')), (js ''sp'', JString (js ''!'')),
          (js ''se'', JString (js ''AA=='')), (js ''wiv'', JString (js ''AA=='')),
          (js ''wdek'', JString (js ''AA==''))] (js ''sp'') = Some (JString (js ''!''))"
    by (simp add: js_def)
  have 5: "atob ref_platform (js ''!'') = Inl InvalidCharacterError"
    by (simp add: ref_defs)
  show ?thesis
    using atob_error_escapes[OF 1 2 3 4 5, of ref_password ref_email ref_world] 1 2 3 4 5
    by (simp add: kind_of_def)
qed

section \<open>The master key\<close>

text \<open>
  Claim C6. \<^verbatim>\<open>deriveMasterKey\<close> exports the two keys it is given, which the key stretcher
  creates extractable, and derives from them one key: HKDF with SHA-256 over the raw bytes
  of the password key followed by the raw bytes of the email key, with an empty salt, the
  bytes of the string \<^verbatim>\<open>Dyad File Encryption Master Key\<close> as info and a length of 256 bits.
  The key is an AES-GCM key for encryption and decryption that is not extractable:
  exporting it fails. With a key that is not extractable the export at the start fails, and
  so does the derivation. The string is written once in the source, in this call, and HKDF
  is called nowhere else.
\<close>

theorem master_key_derivation:
  "deriveMasterKey P kp ke w =
     (if extractable kp \<and> extractable ke
      then
        (Inr \<lparr>key_raw = hkdf P SHA_256 (key_raw kp @ key_raw ke) []
                          (TextEncoder_encode P (js ''Dyad File Encryption Master Key'')) 256,
              algorithm = AES_GCM, extractable = False, usages = [Encrypt, Decrypt]\<rparr>,
         w\<lparr>trace := trace w @
            [Console INFO [Lit ''Deriving Master Key (KM) using HKDF.''],
             Console INFO [Lit ''Master Key derivation complete.'']]\<rparr>)
      else
        (Inl InvalidAccessError,
         w\<lparr>trace := trace w @ [Console INFO [Lit ''Deriving Master Key (KM) using HKDF.'']]\<rparr>)) \<and>
   fst (io_bind (deriveKeyPBKDF2 P password sp) (\<lambda>kp.
        io_bind (deriveKeyPBKDF2 P receiverEmail se) (\<lambda>ke.
        deriveMasterKey P kp ke)) w) =
     Inr \<lparr>key_raw =
            hkdf P SHA_256
              (pbkdf2 P SHA_256 (TextEncoder_encode P password) sp 600000 256 @
               pbkdf2 P SHA_256 (TextEncoder_encode P receiverEmail) se 600000 256) []
              (TextEncoder_encode P (js ''Dyad File Encryption Master Key'')) 256,
          algorithm = AES_GCM, extractable = False, usages = [Encrypt, Decrypt]\<rparr> \<and>
   fst (io_bind (deriveKeyPBKDF2 P password sp) (\<lambda>kp.
        io_bind (deriveKeyPBKDF2 P receiverEmail se) (\<lambda>ke.
        io_bind (deriveMasterKey P kp ke) exportKey_raw)) w) = Inl InvalidAccessError"
proof -
  have a: "deriveMasterKey P kp ke w =
     (if extractable kp \<and> extractable ke
      then
        (Inr \<lparr>key_raw = hkdf P SHA_256 (key_raw kp @ key_raw ke) []
                          (TextEncoder_encode P (js ''Dyad File Encryption Master Key'')) 256,
              algorithm = AES_GCM, extractable = False, usages = [Encrypt, Decrypt]\<rparr>,
         w\<lparr>trace := trace w @
            [Console INFO [Lit ''Deriving Master Key (KM) using HKDF.''],
             Console INFO [Lit ''Master Key derivation complete.'']]\<rparr>)
      else
        (Inl InvalidAccessError,
         w\<lparr>trace := trace w @ [Console INFO [Lit ''Deriving Master Key (KM) using HKDF.'']]\<rparr>))"
  proof (cases "extractable kp \<and> extractable ke")
    case True
    then show ?thesis
      by (simp add: deriveMasterKey_run MASTER_KEY_INFO_def)
  next
    case False
    then show ?thesis
      by (auto simp: deriveMasterKey_def securityLog_def exportKey_raw_def io_bind_def)
  qed
  have b: "io_bind (deriveKeyPBKDF2 P password sp) (\<lambda>kp.
        io_bind (deriveKeyPBKDF2 P receiverEmail se) (\<lambda>ke. k kp ke)) w =
      k \<lparr>key_raw = stretched_key P password sp, algorithm = AES_GCM, extractable = True,
           usages = [Encrypt, Decrypt, WrapKey, UnwrapKey]\<rparr>
        \<lparr>key_raw = stretched_key P receiverEmail se, algorithm = AES_GCM, extractable = True,
           usages = [Encrypt, Decrypt, WrapKey, UnwrapKey]\<rparr>
        (w\<lparr>trace := trace w @
           [Console INFO [Lit ''Starting PBKDF2 key derivation.''],
            Console INFO [Lit ''PBKDF2 key derivation successful.''],
            Console INFO [Lit ''Starting PBKDF2 key derivation.''],
            Console INFO [Lit ''PBKDF2 key derivation successful.'']]\<rparr>)" for k :: "cryptokey \<Rightarrow> cryptokey \<Rightarrow> 'a io"
    by (simp add: io_bind_def deriveKeyPBKDF2_run)
  show ?thesis
    by (simp add: a b deriveMasterKey_run MASTER_KEY_INFO_def stretched_key_def
        io_bind_def[of "deriveMasterKey P _ _"] exportKey_raw_def)
qed

theorem master_key_derivation_witness:
  "fst (deriveMasterKey ref_platform
          (data_cryptokey [1, 2, 3]) (data_cryptokey [4, 5]) ref_world)
     = Inr \<lparr>key_raw = ref_hkdf SHA_256 [1, 2, 3, 4, 5] []
                         (ref_encode (js ''Dyad File Encryption Master Key'')) 256,
            algorithm = AES_GCM, extractable = False, usages = [Encrypt, Decrypt]\<rparr> \<and>
   fst (io_bind (deriveKeyPBKDF2 ref_platform ref_password (run_sp ref_world)) (\<lambda>kp.
        io_bind (deriveKeyPBKDF2 ref_platform ref_email (run_se ref_world)) (\<lambda>ke.
        deriveMasterKey ref_platform kp ke)) ref_world) =
     Inr \<lparr>key_raw =
            [147, 39, 79, 159, 63, 127, 255, 255, 255, 255, 255, 255, 255, 255, 255, 255,
             255, 255, 255, 255, 255, 255, 255, 255, 255, 255, 255, 255, 255, 255, 255, 255],
          algorithm = AES_GCM, extractable = False, usages = [Encrypt, Decrypt]\<rparr>"
proof -
  have k: "hkdf ref_platform SHA_256
      (pbkdf2 ref_platform SHA_256 (TextEncoder_encode ref_platform ref_password)
         (run_sp ref_world) 600000 256 @
       pbkdf2 ref_platform SHA_256 (TextEncoder_encode ref_platform ref_email)
         (run_se ref_world) 600000 256) []
      (TextEncoder_encode ref_platform (js ''Dyad File Encryption Master Key'')) 256
    = run_km ref_platform ref_password ref_email ref_world"
    by (simp add: run_km_def master_key_def stretched_key_def MASTER_KEY_INFO_def)
  have 1: "fst (deriveMasterKey ref_platform
          (data_cryptokey [1, 2, 3]) (data_cryptokey [4, 5]) ref_world)
     = Inr \<lparr>key_raw = ref_hkdf SHA_256 [1, 2, 3, 4, 5] []
                         (ref_encode (js ''Dyad File Encryption Master Key'')) 256,
            algorithm = AES_GCM, extractable = False, usages = [Encrypt, Decrypt]\<rparr>"
    using master_key_derivation[of ref_platform "data_cryptokey [1, 2, 3]"
        "data_cryptokey [4, 5]" ref_world]
    by (simp add: data_cryptokey_def ref_platform_fields)
  have 2: "fst (io_bind (deriveKeyPBKDF2 ref_platform ref_password (run_sp ref_world)) (\<lambda>kp.
        io_bind (deriveKeyPBKDF2 ref_platform ref_email (run_se ref_world)) (\<lambda>ke.
        deriveMasterKey ref_platform kp ke)) ref_world) =
     Inr \<lparr>key_raw =
            [147, 39, 79, 159, 63, 127, 255, 255, 255, 255, 255, 255, 255, 255, 255, 255,
             255, 255, 255, 255, 255, 255, 255, 255, 255, 255, 255, 255, 255, 255, 255, 255],
          algorithm = AES_GCM, extractable = False, usages = [Encrypt, Decrypt]\<rparr>"
    using master_key_derivation[of ref_platform _ _ ref_world ref_password "run_sp ref_world"
        ref_email "run_se ref_world"]
    by (simp only: k ref_km)
  show ?thesis
    by (simp only: 1 2)
qed

section \<open>The payload cipher\<close>

text \<open>
  Claim C8. \<^verbatim>\<open>decryptFileStream\<close> refuses an input of fewer than 28 bytes with the error
  \<^verbatim>\<open>Encrypted data too short.\<close>, an integrity error, and the only event of the run is the line
  that announces the decryption: \<^verbatim>\<open>crypto.subtle.decrypt\<close> is not called. On 28 bytes or
  more it calls \<^verbatim>\<open>crypto.subtle.decrypt\<close> once, with the first 12 bytes as IV and the rest
  as data, returns the plaintext when the call succeeds, and fails with the integrity error
  \<^verbatim>\<open>Integrity check failed: Data may be corrupted or key is incorrect.\<close> when the call
  fails, whether the tag does not verify or the key may not decrypt.
\<close>

theorem payload_minimum_length:
  "decryptFileStream P encryptedBlob dek w =
     (if length encryptedBlob < 28
      then (Inl (Error ''Encrypted data too short.''), w\<lparr>trace := trace w @ [PAYLOAD_START]\<rparr>)
      else if algorithm dek = AES_GCM \<and> Decrypt \<in> set (usages dek)
      then
        (case aes_gcm_decrypt P (key_raw dek) (take 12 encryptedBlob) (drop 12 encryptedBlob) of
           Some plaintext \<Rightarrow>
             (Inr plaintext,
              w\<lparr>trace := trace w @
                 [PAYLOAD_START,
                  Subtle_decrypt dek (take 12 encryptedBlob) (drop 12 encryptedBlob),
                  PAYLOAD_OK]\<rparr>)
         | None \<Rightarrow>
             (Inl (Error ''Integrity check failed: Data may be corrupted or key is incorrect.''),
              w\<lparr>trace := trace w @
                 [PAYLOAD_START,
                  Subtle_decrypt dek (take 12 encryptedBlob) (drop 12 encryptedBlob),
                  PAYLOAD_FAILED]\<rparr>))
      else
        (Inl (Error ''Integrity check failed: Data may be corrupted or key is incorrect.''),
         w\<lparr>trace := trace w @
            [PAYLOAD_START,
             Subtle_decrypt dek (take 12 encryptedBlob) (drop 12 encryptedBlob),
             PAYLOAD_FAILED]\<rparr>)) \<and>
   kind_of (Error ''Encrypted data too short.'') = Some IntegrityError \<and>
   kind_of (Error ''Integrity check failed: Data may be corrupted or key is incorrect.'')
     = Some IntegrityError"
proof -
  have short: ?thesis if "length encryptedBlob < 28"
    using that by (simp add: decryptFileStream_short PAYLOAD_START_def kind_of_def)
  have long: ?thesis if "\<not> length encryptedBlob < 28"
  proof -
    from that have l: "28 \<le> length encryptedBlob" "\<not> length encryptedBlob < 28"
      "\<not> length encryptedBlob - 12 < 16"
      by simp_all
    show ?thesis
      by (simp add: decryptFileStream_long[OF l(1)] decrypt_AES_GCM_run l(2,3)
          PAYLOAD_START_def PAYLOAD_OK_def PAYLOAD_FAILED_def kind_of_def
          split: option.splits)
  qed
  show ?thesis using short long by blast
qed

theorem payload_minimum_length_witness:
  "fst (decryptFileStream ref_platform (replicate 27 0) (data_cryptokey (run_dek ref_world))
          ref_world) = Inl (Error ''Encrypted data too short.'') \<and>
   trace (snd (decryptFileStream ref_platform (replicate 27 0)
                 (data_cryptokey (run_dek ref_world)) ref_world)) = [PAYLOAD_START] \<and>
   fst (decryptFileStream ref_platform (run_payload ref_platform ref_file ref_world)
          (data_cryptokey (run_dek ref_world)) ref_world) = Inr [104, 101, 108, 108, 111] \<and>
   fst (decryptFileStream ref_platform
          ((run_payload ref_platform ref_file ref_world)[12 := 0])
          (data_cryptokey (run_dek ref_world)) ref_world)
     = Inl (Error ''Integrity check failed: Data may be corrupted or key is incorrect.'')"
proof -
  have p: "run_payload ref_platform ref_file ref_world =
     [7, 44, 81, 118, 155, 192, 229, 10, 47, 84, 121, 158, 162, 58, 220, 119, 21,
      25, 25, 25, 25, 25, 25, 25, 25, 25, 25, 25, 25, 25, 25, 25, 25]"
    by (simp add: run_payload_def ref_draws ref_file_def ref_crypto_defs)
  have d: "aes_gcm_decrypt ref_platform (run_dek ref_world)
       [7, 44, 81, 118, 155, 192, 229, 10, 47, 84, 121, 158]
       [162, 58, 220, 119, 21, 25, 25, 25, 25, 25, 25, 25, 25, 25, 25, 25, 25, 25, 25, 25, 25]
     = Some [104, 101, 108, 108, 111]"
    by (simp add: ref_draws ref_crypto_defs)
  have t: "aes_gcm_decrypt ref_platform (run_dek ref_world)
       [7, 44, 81, 118, 155, 192, 229, 10, 47, 84, 121, 158]
       [0, 58, 220, 119, 21, 25, 25, 25, 25, 25, 25, 25, 25, 25, 25, 25, 25, 25, 25, 25, 25]
     = None"
    by (simp add: ref_draws ref_crypto_defs)
  have tr: "trace ref_world = []"
    by (simp add: ref_world_def)
  note k = data_cryptokey_def
  have 1: "decryptFileStream ref_platform (replicate 27 0) (data_cryptokey (run_dek ref_world))
       ref_world
     = (Inl (Error ''Encrypted data too short.''), ref_world\<lparr>trace := [PAYLOAD_START]\<rparr>)"
    using payload_minimum_length[of ref_platform "replicate 27 0"
        "data_cryptokey (run_dek ref_world)" ref_world]
    by (simp add: tr)
  have 2: "fst (decryptFileStream ref_platform (run_payload ref_platform ref_file ref_world)
       (data_cryptokey (run_dek ref_world)) ref_world) = Inr [104, 101, 108, 108, 111]"
    using payload_minimum_length[of ref_platform "run_payload ref_platform ref_file ref_world"
        "data_cryptokey (run_dek ref_world)" ref_world]
    by (simp add: p d k)
  have 3: "fst (decryptFileStream ref_platform
       ((run_payload ref_platform ref_file ref_world)[12 := 0])
       (data_cryptokey (run_dek ref_world)) ref_world)
     = Inl (Error ''Integrity check failed: Data may be corrupted or key is incorrect.'')"
    using payload_minimum_length[of ref_platform
        "(run_payload ref_platform ref_file ref_world)[12 := 0]"
        "data_cryptokey (run_dek ref_world)" ref_world]
    by (simp add: p t k)
  show ?thesis
    by (simp add: 1 2 3)
qed

section \<open>The header codec\<close>




end
